theory Spec2Isabelle
  imports Main "HOL-Library.Sublist" "HOL-Library.AList"
begin

section \<open>JavaScript values\<close>

text \<open>
  The storage adapters (\<^verbatim>\<open>KvrocksStorage\<close>, \<^verbatim>\<open>RedisStorage\<close>) hand JSON-serialisable
  JavaScript values to the Upstash client and get them back deserialised. The TypeScript
  casts (\<^verbatim>\<open>val as PlayRecord\<close>) do nothing at run time, so a method returns whatever
  the client hands back for the key. A property whose value is \<^verbatim>\<open>undefined\<close> is
  modelled as an absent property: reading a property gives a \<open>json option\<close>, where
  \<open>None\<close> is \<^verbatim>\<open>undefined\<close>.
\<close>

datatype json =
  JNull | JBool bool | JNum int | JStr string | JArr "json list" | JObj "(string \<times> json) list"

type_synonym obj = "(string \<times> json) list"

text \<open>Truthiness, as tested by \<^verbatim>\<open>val ? val : null\<close> and \<^verbatim>\<open>if (data)\<close>.\<close>

fun truthy :: "json \<Rightarrow> bool" where
  "truthy JNull = False"
| "truthy (JBool b) = b"
| "truthy (JNum n) = (n \<noteq> 0)"
| "truthy (JStr s) = (s \<noteq> [])"
| "truthy (JArr xs) = True"
| "truthy (JObj fs) = True"

text \<open>Property read \<^verbatim>\<open>v.name\<close> on a value that is not null: only objects carry the
  properties the adapters read.\<close>

fun property :: "json \<Rightarrow> string \<Rightarrow> json option" where
  "property (JObj fs) name = map_of fs name"
| "property v name = None"

text \<open>Optional chaining \<^verbatim>\<open>v?.name\<close> on a value that may be undefined or null.\<close>

fun opt_prop :: "json option \<Rightarrow> string \<Rightarrow> json option" where
  "opt_prop None name = None"
| "opt_prop (Some JNull) name = None"
| "opt_prop (Some v) name = property v name"

text \<open>Nullish coalescing \<^verbatim>\<open>a ?? b\<close>.\<close>

fun nullish :: "json option \<Rightarrow> bool" where
  "nullish None = True"
| "nullish (Some JNull) = True"
| "nullish (Some v) = False"

definition coalesce :: "json option \<Rightarrow> json option \<Rightarrow> json option" where
  "coalesce a b = (if nullish a then b else a)"

text \<open>An object literal \<^verbatim>\<open>{ name: value, ... }\<close>; a property whose value is undefined
  is left out (see above).\<close>

fun object_literal :: "(string \<times> json option) list \<Rightarrow> obj" where
  "object_literal [] = []"
| "object_literal ((name, None) # ps) = object_literal ps"
| "object_literal ((name, Some v) # ps) = (name, v) # object_literal ps"

text \<open>
  \<^verbatim>\<open>String(value)\<close>, the body of \<^verbatim>\<open>ensureString\<close>. An array prints as its elements
  joined by commas, a null element as the empty string. A number prints as its decimal
  digits: this is what \<^verbatim>\<open>String\<close> gives below \<open>10^21\<close> (from there on it switches to
  exponent notation), and every number that the client's deserialisation produces here
  is a safe integer (see \<open>parse_int\<close>).
\<close>

definition digit_char :: "nat \<Rightarrow> char" where
  "digit_char n = ''0123456789'' ! (n mod 10)"

function decimal :: "nat \<Rightarrow> string" where
  "decimal n = (if n < 10 then [digit_char n] else decimal (n div 10) @ [digit_char n])"
  by pat_completeness auto
termination
  by (relation "measure id") auto

fun join_comma :: "string list \<Rightarrow> string" where
  "join_comma [] = []"
| "join_comma [x] = x"
| "join_comma (x # y # zs) = x @ CHR '','' # join_comma (y # zs)"

fun ensureString :: "json \<Rightarrow> string" where
  "ensureString JNull = ''null''"
| "ensureString (JBool b) = (if b then ''true'' else ''false'')"
| "ensureString (JNum n) = (if n < 0 then CHR ''-'' # decimal (nat (- n)) else decimal (nat n))"
| "ensureString (JStr s) = s"
| "ensureString (JArr xs) =
     join_comma (map (\<lambda>x. if x = JNull then [] else ensureString x) xs)"
| "ensureString (JObj fs) = ''[object Object]''"

text \<open>\<^verbatim>\<open>haystack.includes(needle)\<close> and \<^verbatim>\<open>k.replace(needle, '')\<close> (the first occurrence
  only, as \<^verbatim>\<open>String.prototype.replace\<close> does for a string pattern).\<close>

fun str_includes :: "string \<Rightarrow> string \<Rightarrow> bool" where
  "str_includes [] needle = (needle = [])"
| "str_includes (c # cs) needle = (prefix needle (c # cs) \<or> str_includes cs needle)"

fun replace_first :: "string \<Rightarrow> string \<Rightarrow> string" where
  "replace_first needle [] = []"
| "replace_first needle (c # cs) =
     (if prefix needle (c # cs) then drop (length needle) (c # cs)
      else c # replace_first needle cs)"

section \<open>The deserialisation done by the client\<close>

text \<open>
  The Upstash client sends a string argument as it is and any other value as its JSON
  text. Every string of a reply goes through \<^verbatim>\<open>JSON.parse\<close>: when that succeeds the
  caller gets the parsed value, otherwise the string itself; a parsed number is kept
  only when it prints as the very text that was parsed. This is why the adapters wrap
  replies in \<^verbatim>\<open>ensureString\<close>. The parser below covers JSON texts made of objects,
  arrays, strings with the one-letter escapes, integers within the safe range,
  \<^verbatim>\<open>true\<close>, \<^verbatim>\<open>false\<close> and \<^verbatim>\<open>null\<close>, with white space between tokens. A text with a
  fraction, an exponent, a larger integer or a \<^verbatim>\<open>\u\<close> escape is outside this fragment
  and is treated as not parsing; the theorems below evaluate the parser on texts of the
  fragment only. The first argument of the three parsing functions bounds the depth of
  the recursion; \<open>JSON_parse\<close> starts them with more than the length of the text.
\<close>

definition is_ws :: "char \<Rightarrow> bool" where
  "is_ws c = (c = CHR '' '' \<or> c = CHR 0x09 \<or> c = CHR 0x0A \<or> c = CHR 0x0D)"

definition skip_ws :: "string \<Rightarrow> string" where
  "skip_ws s = dropWhile is_ws s"

definition digit_value :: "char \<Rightarrow> int option" where
  "digit_value c = map_of (zip ''0123456789'' [0, 1, 2, 3, 4, 5, 6, 7, 8, 9]) c"

definition is_digit :: "char \<Rightarrow> bool" where
  "is_digit c = (digit_value c \<noteq> None)"

fun unescape :: "char \<Rightarrow> char option" where
  "unescape c =
     (if c = CHR 0x22 \<or> c = CHR 0x5C \<or> c = CHR ''/'' then Some c
      else if c = CHR ''b'' then Some (CHR 0x08)
      else if c = CHR ''f'' then Some (CHR 0x0C)
      else if c = CHR ''n'' then Some (CHR 0x0A)
      else if c = CHR ''r'' then Some (CHR 0x0D)
      else if c = CHR ''t'' then Some (CHR 0x09)
      else None)"

text \<open>\<open>parse_string_body acc s\<close> reads a string literal after its opening quote.\<close>

fun parse_string_body :: "string \<Rightarrow> string \<Rightarrow> (string \<times> string) option" where
  "parse_string_body acc [] = None"
| "parse_string_body acc [c] = (if c = CHR 0x22 then Some (rev acc, []) else None)"
| "parse_string_body acc (c # d # cs) =
     (if c = CHR 0x22 then Some (rev acc, d # cs)
      else if c = CHR 0x5C then
        (case unescape d of None \<Rightarrow> None | Some x \<Rightarrow> parse_string_body (x # acc) cs)
      else if (of_char c :: nat) < 32 then None
      else parse_string_body (c # acc) (d # cs))"

text \<open>An integer literal: an optional minus sign, then \<open>0\<close> or a digit sequence not
  starting with \<open>0\<close>.\<close>

definition parse_int :: "string \<Rightarrow> (int \<times> string) option" where
  "parse_int s =
     (let negative = (case s of [] \<Rightarrow> False | c # r \<Rightarrow> c = CHR ''-'');
          t = (if negative then tl s else s);
          ds = (case t of [] \<Rightarrow> [] | d # r \<Rightarrow> if d = CHR ''0'' then [d] else takeWhile is_digit t);
          rest = drop (length ds) t;
          n = foldl (\<lambda>a d. 10 * a + (case digit_value d of None \<Rightarrow> 0 | Some v \<Rightarrow> v)) 0 ds
      in if ds = [] then None
         else if (case rest of [] \<Rightarrow> False | c # r \<Rightarrow> c = CHR ''.'' \<or> c = CHR ''e'' \<or> c = CHR ''E'')
           then None
         else if 9007199254740991 < n then None
         else Some (if negative then - n else n, rest))"

fun parse_value :: "nat \<Rightarrow> string \<Rightarrow> (json \<times> string) option"
  and parse_elements :: "nat \<Rightarrow> json list \<Rightarrow> string \<Rightarrow> (json \<times> string) option"
  and parse_members :: "nat \<Rightarrow> obj \<Rightarrow> string \<Rightarrow> (json \<times> string) option"
where
  "parse_value 0 s = None"
| "parse_value (Suc n) s =
     (case skip_ws s of
        [] \<Rightarrow> None
      | c # cs \<Rightarrow>
          if c = CHR ''['' then
            (case skip_ws cs of
               [] \<Rightarrow> None
             | d # ds \<Rightarrow> if d = CHR '']'' then Some (JArr [], ds) else parse_elements n [] cs)
          else if c = CHR ''{'' then
            (case skip_ws cs of
               [] \<Rightarrow> None
             | d # ds \<Rightarrow> if d = CHR ''}'' then Some (JObj [], ds) else parse_members n [] cs)
          else if c = CHR 0x22 then
            (case parse_string_body [] cs of
               None \<Rightarrow> None
             | Some (str, r) \<Rightarrow> Some (JStr str, r))
          else if prefix ''null'' (c # cs) then Some (JNull, drop 4 (c # cs))
          else if prefix ''true'' (c # cs) then Some (JBool True, drop 4 (c # cs))
          else if prefix ''false'' (c # cs) then Some (JBool False, drop 5 (c # cs))
          else (case parse_int (c # cs) of
                  None \<Rightarrow> None
                | Some (i, r) \<Rightarrow> Some (JNum i, r)))"
| "parse_elements 0 acc s = None"
| "parse_elements (Suc n) acc s =
     (case parse_value n s of
        None \<Rightarrow> None
      | Some (v, r) \<Rightarrow>
          (case skip_ws r of
             [] \<Rightarrow> None
           | c # cs \<Rightarrow>
               if c = CHR '','' then parse_elements n (acc @ [v]) cs
               else if c = CHR '']'' then Some (JArr (acc @ [v]), cs)
               else None))"
| "parse_members 0 acc s = None"
| "parse_members (Suc n) acc s =
     (case skip_ws s of
        [] \<Rightarrow> None
      | q # ks \<Rightarrow>
          if q \<noteq> CHR 0x22 then None
          else
            (case parse_string_body [] ks of
               None \<Rightarrow> None
             | Some (name, r) \<Rightarrow>
                 (case skip_ws r of
                    [] \<Rightarrow> None
                  | c # cs \<Rightarrow>
                      if c \<noteq> CHR '':'' then None
                      else
                        (case parse_value n cs of
                           None \<Rightarrow> None
                         | Some (v, r') \<Rightarrow>
                             (case skip_ws r' of
                                [] \<Rightarrow> None
                              | d # ds \<Rightarrow>
                                  if d = CHR '','' then
                                    parse_members n (AList.update name v acc) ds
                                  else if d = CHR ''}'' then
                                    Some (JObj (AList.update name v acc), ds)
                                  else None)))))"

definition JSON_parse :: "string \<Rightarrow> json option" where
  "JSON_parse text =
     (case parse_value (Suc (Suc (length text))) text of
        None \<Rightarrow> None
      | Some (v, r) \<Rightarrow> if skip_ws r = [] then Some v else None)"

text \<open>What the caller gets for a string of a reply.\<close>

definition deserialize :: "string \<Rightarrow> json" where
  "deserialize text =
     (case JSON_parse text of
        None \<Rightarrow> JStr text
      | Some (JNum n) \<Rightarrow> if ensureString (JNum n) = text then JNum n else JStr text
      | Some v \<Rightarrow> v)"

text \<open>
  A string entry of the store records the value that \<^verbatim>\<open>set\<close> was called with (see the
  next section). \<open>stored_value v\<close> is what a later \<^verbatim>\<open>get\<close> returns for it: a string was
  stored as it is and comes back deserialised; any other value was stored as its JSON
  text and comes back as that value.
\<close>

fun stored_value :: "json \<Rightarrow> json" where
  "stored_value (JStr text) = deserialize text"
| "stored_value v = v"

section \<open>Failures and asynchronous operations\<close>

text \<open>A thrown error, with the two properties \<^verbatim>\<open>withRetry\<close> inspects.\<close>

record js_error =
  message :: "string option"
  code :: "string option"

definition Error :: "string \<Rightarrow> js_error" where
  "Error msg = \<lparr>message = Some msg, code = None\<rparr>"

text \<open>
  An asynchronous operation is a function of the state it runs in: it either rejects
  (\<open>Inl\<close>) or resolves (\<open>Inr\<close>), and leaves a new state. \<open>await m f\<close> is
  \<^verbatim>\<open>const v = await m; f(v)\<close>: a rejection of \<open>m\<close> is thrown on.
\<close>

type_synonym ('s, 'a) task = "'s \<Rightarrow> (js_error + 'a) \<times> 's"

definition resolve :: "'a \<Rightarrow> ('s, 'a) task" where
  "resolve v s = (Inr v, s)"

definition reject :: "js_error \<Rightarrow> ('s, 'a) task" where
  "reject e s = (Inl e, s)"

definition await :: "('s, 'a) task \<Rightarrow> ('a \<Rightarrow> ('s, 'b) task) \<Rightarrow> ('s, 'b) task" where
  "await m f s = (case m s of (Inl e, s') \<Rightarrow> (Inl e, s') | (Inr v, s') \<Rightarrow> f v s')"

subsection \<open>The retry wrapper\<close>

text \<open>
  \<^verbatim>\<open>isConnectionError\<close> as computed in the \<^verbatim>\<open>catch\<close> block; \<^verbatim>\<open>err.message?.includes\<close>
  is false when the error has no message.
\<close>

definition message_includes :: "js_error \<Rightarrow> string \<Rightarrow> bool" where
  "message_includes err needle = (case message err of None \<Rightarrow> False | Some m \<Rightarrow> str_includes m needle)"

definition isConnectionError :: "js_error \<Rightarrow> bool" where
  "isConnectionError err =
     (message_includes err ''Connection'' \<or>
      message_includes err ''ECONNREFUSED'' \<or>
      message_includes err ''ENOTFOUND'' \<or>
      code err = Some ''ECONNRESET'' \<or>
      code err = Some ''EPIPE'')"

text \<open>
  The effects of \<^verbatim>\<open>withRetry\<close> besides those of the operation itself are recorded as a
  trace: \<open>Attempt\<close> for each call of the operation, \<open>Wait ms\<close> for each
  \<^verbatim>\<open>setTimeout(resolve, ms)\<close> that is awaited.
\<close>

datatype event = Attempt | Wait int

text \<open>The \<^verbatim>\<open>for (let i = 0; i < maxRetries; i++)\<close> loop, from iteration \<open>i\<close> on.\<close>

function withRetry_loop ::
  "('s, 'a) task \<Rightarrow> int \<Rightarrow> int \<Rightarrow> 's \<Rightarrow> event list \<Rightarrow> ((js_error + 'a) \<times> 's) \<times> event list" where
  "withRetry_loop operation maxRetries i s trace =
     (if i < maxRetries then
        (case operation s of
           (Inr v, s') \<Rightarrow> ((Inr v, s'), trace @ [Attempt])
         | (Inl err, s') \<Rightarrow>
             if isConnectionError err \<and> \<not> (i = maxRetries - 1)
             then withRetry_loop operation maxRetries (i + 1) s'
                    (trace @ [Attempt, Wait (1000 * (i + 1))])
             else ((Inl err, s'), trace @ [Attempt]))
      else ((Inl (Error ''Max retries exceeded''), s), trace))"
  by pat_completeness auto
termination
  by (relation "measure (\<lambda>(operation, maxRetries, i, s, trace). nat (maxRetries - i))") auto

definition withRetry ::
  "('s, 'a) task \<Rightarrow> int \<Rightarrow> 's \<Rightarrow> ((js_error + 'a) \<times> 's) \<times> event list" where
  "withRetry operation maxRetries s = withRetry_loop operation maxRetries 0 s []"

text \<open>\<^verbatim>\<open>withRetry(operation)\<close> with the default \<^verbatim>\<open>maxRetries = 3\<close>, as every adapter method
  calls it; the adapter sees the outcome and the new state.\<close>

definition retrying :: "('s, 'a) task \<Rightarrow> ('s, 'a) task" where
  "retrying operation s = fst (withRetry operation 3 s)"

definition attempts :: "event list \<Rightarrow> nat" where
  "attempts trace = length (filter (\<lambda>e. e = Attempt) trace)"

fun waits :: "event list \<Rightarrow> int list" where
  "waits [] = []"
| "waits (Attempt # es) = waits es"
| "waits (Wait ms # es) = ms # waits es"

section \<open>The key-value service\<close>

text \<open>
  Both adapters talk to a Redis-compatible service through the Upstash client. The
  service is modelled as a list of (key, entry) pairs, read by \<open>map_of\<close>; an entry is a
  string value (holding a JSON value), a list or a set. The commands below are the ones
  the adapters call. A command on an entry of the wrong kind is refused by the service
  (\<open>WRONGTYPE\<close>), and the client throws. Lists and sets that become empty are removed,
  as the service does. A string entry \<open>Str v\<close> records the value \<open>v\<close> that \<^verbatim>\<open>set\<close> was
  called with; lists and sets hold the strings that were pushed or added. The replies of
  \<^verbatim>\<open>get\<close>, \<^verbatim>\<open>mget\<close> and \<^verbatim>\<open>lrange\<close> are deserialised as the client does it.
  \<open>client_smembers\<close> gives the members as the service holds them, so that statements
  about a set can speak of what was added; the adapter method that reads them applies
  the deserialisation. The keys that the adapters list by pattern start with \<open>u:\<close>,
  which no JSON text does, so the reply of \<^verbatim>\<open>keys\<close> is left as it is.
\<close>

datatype entry = Str json | Lst "string list" | Set "string list"

type_synonym store = "(string \<times> entry) list"

definition wrongtype :: js_error where
  "wrongtype = Error ''WRONGTYPE Operation against a key holding the wrong kind of value''"

definition wrong_arguments :: js_error where
  "wrong_arguments = Error ''ERR wrong number of arguments''"

subsection \<open>Key patterns\<close>

text \<open>
  \<^verbatim>\<open>KEYS pattern\<close> matches glob-style: \<open>*\<close> any sequence, \<open>?\<close> any one character,
  \<open>[...]\<close> a class of characters (\<open>^\<close> negates, \<open>a-z\<close> is a range), a backslash
  escapes the next character.
\<close>

fun glob_class :: "string \<Rightarrow> char \<Rightarrow> bool \<Rightarrow> bool \<times> string" where
  "glob_class [] c m = (m, [])"
| "glob_class [p] c m = (if p = CHR '']'' then (m, []) else (m \<or> p = c, []))"
| "glob_class (p # q # ps) c m =
     (if p = CHR 0x5C then glob_class ps c (m \<or> q = c)
      else if p = CHR '']'' then (m, q # ps)
      else if q = CHR ''-'' \<and> ps \<noteq> [] then
        glob_class (tl ps) c
          (m \<or> (min (of_char p) (of_char (hd ps)) \<le> (of_char c :: nat) \<and>
                (of_char c :: nat) \<le> max (of_char p) (of_char (hd ps))))
      else glob_class (q # ps) c (m \<or> p = c))"

fun glob :: "string \<Rightarrow> string \<Rightarrow> bool" where
  "glob [] s = (s = [])"
| "glob (p # ps) [] = (p = CHR ''*'' \<and> glob ps [])"
| "glob (p # ps) (c # cs) =
     (if p = CHR ''*'' then glob ps (c # cs) \<or> glob (p # ps) cs
      else if p = CHR ''?'' then glob ps cs
      else if p = CHR ''['' then
        (case (case ps of
                 [] \<Rightarrow> (False, [])
               | q # qs \<Rightarrow> if q = CHR ''^'' then (True, qs) else (False, ps)) of
           (neg, body) \<Rightarrow>
             (case glob_class body c False of (m, rest) \<Rightarrow> (m \<noteq> neg) \<and> glob rest cs))
      else if p = CHR 0x5C \<and> ps \<noteq> [] then hd ps = c \<and> glob (tl ps) cs
      else p = c \<and> glob ps cs)"

subsection \<open>String commands\<close>

definition client_get :: "string \<Rightarrow> (store, json) task" where
  "client_get k s =
     (case map_of s k of
        None \<Rightarrow> (Inr JNull, s)
      | Some (Str v) \<Rightarrow> (Inr (stored_value v), s)
      | Some other \<Rightarrow> (Inl wrongtype, s))"

definition client_set :: "string \<Rightarrow> json \<Rightarrow> (store, unit) task" where
  "client_set k v s = (Inr (), AList.update k (Str v) s)"

definition client_mget :: "string list \<Rightarrow> (store, json list) task" where
  "client_mget ks s =
     (if ks = [] then (Inl wrong_arguments, s)
      else
        (Inr (map (\<lambda>k. case map_of s k of Some (Str v) \<Rightarrow> stored_value v | other \<Rightarrow> JNull)
               ks), s))"

subsection \<open>Key commands\<close>

definition client_del :: "string list \<Rightarrow> (store, unit) task" where
  "client_del ks s =
     (if ks = [] then (Inl wrong_arguments, s)
      else (Inr (), filter (\<lambda>(k, e). k \<notin> set ks) s))"

definition client_exists :: "string \<Rightarrow> (store, int) task" where
  "client_exists k s = (Inr (if map_of s k = None then 0 else 1), s)"

definition client_keys :: "string \<Rightarrow> (store, string list) task" where
  "client_keys pattern s = (Inr (filter (glob pattern) (map fst s)), s)"

subsection \<open>List commands\<close>

text \<open>The index range of \<^verbatim>\<open>LRANGE\<close> and \<^verbatim>\<open>LTRIM\<close>: both ends inclusive, a negative
  index counts from the end.\<close>

definition list_range :: "int \<Rightarrow> int \<Rightarrow> 'a list \<Rightarrow> 'a list" where
  "list_range start stop xs =
     (let n = int (length xs);
          a = (if start < 0 then max 0 (n + start) else start);
          b = (if stop < 0 then n + stop else min stop (n - 1))
      in if b < a \<or> n \<le> a then [] else take (nat (b - a + 1)) (drop (nat a) xs))"

fun remove_n :: "nat \<Rightarrow> 'a \<Rightarrow> 'a list \<Rightarrow> 'a list" where
  "remove_n 0 v xs = xs"
| "remove_n (Suc n) v [] = []"
| "remove_n (Suc n) v (x # xs) =
     (if x = v then remove_n n v xs else x # remove_n (Suc n) v xs)"

text \<open>\<^verbatim>\<open>LREM key count value\<close>: all occurrences when \<open>count\<close> is 0, the first \<open>count\<close>
  when it is positive, the last \<open>- count\<close> when it is negative.\<close>

definition list_rem :: "int \<Rightarrow> 'a \<Rightarrow> 'a list \<Rightarrow> 'a list" where
  "list_rem count v xs =
     (if count = 0 then removeAll v xs
      else if 0 < count then remove_n (nat count) v xs
      else rev (remove_n (nat (- count)) v (rev xs)))"

definition list_at :: "store \<Rightarrow> string \<Rightarrow> js_error + string list" where
  "list_at s k =
     (case map_of s k of
        None \<Rightarrow> Inr []
      | Some (Lst xs) \<Rightarrow> Inr xs
      | Some other \<Rightarrow> Inl wrongtype)"

definition put_list :: "string \<Rightarrow> string list \<Rightarrow> store \<Rightarrow> store" where
  "put_list k xs s = (if xs = [] then AList.delete k s else AList.update k (Lst xs) s)"

definition client_lrange :: "string \<Rightarrow> int \<Rightarrow> int \<Rightarrow> (store, json list) task" where
  "client_lrange k start stop s =
     (case list_at s k of
        Inl e \<Rightarrow> (Inl e, s)
      | Inr xs \<Rightarrow> (Inr (map deserialize (list_range start stop xs)), s))"

definition client_lrem :: "string \<Rightarrow> int \<Rightarrow> string \<Rightarrow> (store, unit) task" where
  "client_lrem k count v s =
     (case list_at s k of
        Inl e \<Rightarrow> (Inl e, s)
      | Inr xs \<Rightarrow> (Inr (), put_list k (list_rem count v xs) s))"

definition client_lpush :: "string \<Rightarrow> string \<Rightarrow> (store, unit) task" where
  "client_lpush k v s =
     (case list_at s k of
        Inl e \<Rightarrow> (Inl e, s)
      | Inr xs \<Rightarrow> (Inr (), put_list k (v # xs) s))"

definition client_ltrim :: "string \<Rightarrow> int \<Rightarrow> int \<Rightarrow> (store, unit) task" where
  "client_ltrim k start stop s =
     (case list_at s k of
        Inl e \<Rightarrow> (Inl e, s)
      | Inr xs \<Rightarrow> (Inr (), put_list k (list_range start stop xs) s))"

subsection \<open>Set commands\<close>

definition set_at :: "store \<Rightarrow> string \<Rightarrow> js_error + string list" where
  "set_at s k =
     (case map_of s k of
        None \<Rightarrow> Inr []
      | Some (Set ms) \<Rightarrow> Inr ms
      | Some other \<Rightarrow> Inl wrongtype)"

definition put_set :: "string \<Rightarrow> string list \<Rightarrow> store \<Rightarrow> store" where
  "put_set k ms s = (if ms = [] then AList.delete k s else AList.update k (Set ms) s)"

definition client_sadd :: "string \<Rightarrow> string \<Rightarrow> (store, unit) task" where
  "client_sadd k m s =
     (case set_at s k of
        Inl e \<Rightarrow> (Inl e, s)
      | Inr ms \<Rightarrow> (Inr (), put_set k (List.insert m ms) s))"

definition client_srem :: "string \<Rightarrow> string \<Rightarrow> (store, unit) task" where
  "client_srem k m s =
     (case set_at s k of
        Inl e \<Rightarrow> (Inl e, s)
      | Inr ms \<Rightarrow> (Inr (), put_set k (removeAll m ms) s))"

definition client_smembers :: "string \<Rightarrow> (store, string list) task" where
  "client_smembers k s =
     (case set_at s k of
        Inl e \<Rightarrow> (Inl e, s)
      | Inr ms \<Rightarrow> (Inr ms, s))"

section \<open>Settings merge (\<^verbatim>\<open>src/lib/settings.ts\<close>)\<close>

text \<open>
  \<^verbatim>\<open>partial.f ?? current?.f ?? defaults.f\<close> for each of the five fields (\<^verbatim>\<open>??\<close>
  associates to the left). \<open>defaults\<close> and \<open>partial\<close> are objects; \<open>current\<close> may be
  undefined or null.
\<close>

definition mergeUserSettings :: "obj \<Rightarrow> json option \<Rightarrow> obj \<Rightarrow> obj" where
  "mergeUserSettings defaults current partial =
     object_literal
       [(''filter_adult_content'',
           coalesce
             (coalesce (map_of partial ''filter_adult_content'')
                (opt_prop current ''filter_adult_content''))
             (map_of defaults ''filter_adult_content'')),
        (''theme'',
           coalesce (coalesce (map_of partial ''theme'') (opt_prop current ''theme''))
             (map_of defaults ''theme'')),
        (''language'',
           coalesce (coalesce (map_of partial ''language'') (opt_prop current ''language''))
             (map_of defaults ''language'')),
        (''auto_play'',
           coalesce (coalesce (map_of partial ''auto_play'') (opt_prop current ''auto_play''))
             (map_of defaults ''auto_play'')),
        (''video_quality'',
           coalesce
             (coalesce (map_of partial ''video_quality'') (opt_prop current ''video_quality''))
             (map_of defaults ''video_quality''))]"

section \<open>Parts shared by the two adapters\<close>

definition SEARCH_HISTORY_LIMIT :: int where
  "SEARCH_HISTORY_LIMIT = 20"

definition ensureStringArray :: "json list \<Rightarrow> string list" where
  "ensureStringArray value = map ensureString value"

text \<open>
  The loop that fills the result of \<^verbatim>\<open>getAllPlayRecords\<close>, \<^verbatim>\<open>getAllFavorites\<close> and
  the Kvrocks \<^verbatim>\<open>getAllSkipConfigs\<close>: for each key with a truthy value,
  \<^verbatim>\<open>result[k.replace(prefix, '')] = v\<close>.
\<close>

definition collect_records :: "string \<Rightarrow> string list \<Rightarrow> json list \<Rightarrow> obj" where
  "collect_records pre keys values =
     fold (\<lambda>(k, v) result. if truthy v then AList.update (replace_first pre k) v result else result)
       (zip keys values) []"

text \<open>\<^verbatim>\<open>current ?? undefined\<close> on a value that is not undefined.\<close>

definition or_undefined :: "json \<Rightarrow> json option" where
  "or_undefined v = coalesce (Some v) None"

text \<open>\<^verbatim>\<open>target.name = v\<close> in strict mode (an ES module): on a primitive it throws a
  \<^verbatim>\<open>TypeError\<close>. On an array the property is set but is not part of the JSON text that
  is stored afterwards.\<close>

fun assign_property :: "json \<Rightarrow> string \<Rightarrow> json \<Rightarrow> ('s, json) task" where
  "assign_property (JObj fs) name v = resolve (JObj (AList.update name v fs))"
| "assign_property (JArr xs) name v = resolve (JArr xs)"
| "assign_property target name v = reject (Error ''TypeError: Cannot create property'')"

section \<open>\<^verbatim>\<open>KvrocksStorage\<close>\<close>

definition Kvrocks_prKey :: "string \<Rightarrow> string \<Rightarrow> string" where
  "Kvrocks_prKey user key = ''u:'' @ user @ '':pr:'' @ key"

definition Kvrocks_getPlayRecord :: "string \<Rightarrow> string \<Rightarrow> (store, json) task" where
  "Kvrocks_getPlayRecord userName key =
     await (retrying (client_get (Kvrocks_prKey userName key)))
       (\<lambda>val. resolve (if truthy val then val else JNull))"

definition Kvrocks_setPlayRecord :: "string \<Rightarrow> string \<Rightarrow> obj \<Rightarrow> (store, unit) task" where
  "Kvrocks_setPlayRecord userName key record =
     retrying (client_set (Kvrocks_prKey userName key) (JObj record))"

definition Kvrocks_getAllPlayRecords :: "string \<Rightarrow> (store, obj) task" where
  "Kvrocks_getAllPlayRecords userName =
     await (retrying (client_keys (''u:'' @ userName @ '':pr:*'')))
       (\<lambda>keys. if keys = [] then resolve []
          else await (retrying (client_mget keys))
            (\<lambda>values. resolve (collect_records (''u:'' @ userName @ '':pr:'') keys values)))"

definition Kvrocks_deletePlayRecord :: "string \<Rightarrow> string \<Rightarrow> (store, unit) task" where
  "Kvrocks_deletePlayRecord userName key = retrying (client_del [Kvrocks_prKey userName key])"

definition Kvrocks_favKey :: "string \<Rightarrow> string \<Rightarrow> string" where
  "Kvrocks_favKey user key = ''u:'' @ user @ '':fav:'' @ key"

definition Kvrocks_getFavorite :: "string \<Rightarrow> string \<Rightarrow> (store, json) task" where
  "Kvrocks_getFavorite userName key =
     await (retrying (client_get (Kvrocks_favKey userName key)))
       (\<lambda>val. resolve (if truthy val then val else JNull))"

definition Kvrocks_setFavorite :: "string \<Rightarrow> string \<Rightarrow> obj \<Rightarrow> (store, unit) task" where
  "Kvrocks_setFavorite userName key favorite =
     retrying (client_set (Kvrocks_favKey userName key) (JObj favorite))"

definition Kvrocks_getAllFavorites :: "string \<Rightarrow> (store, obj) task" where
  "Kvrocks_getAllFavorites userName =
     await (retrying (client_keys (''u:'' @ userName @ '':fav:*'')))
       (\<lambda>keys. if keys = [] then resolve []
          else await (retrying (client_mget keys))
            (\<lambda>values. resolve (collect_records (''u:'' @ userName @ '':fav:'') keys values)))"

definition Kvrocks_deleteFavorite :: "string \<Rightarrow> string \<Rightarrow> (store, unit) task" where
  "Kvrocks_deleteFavorite userName key = retrying (client_del [Kvrocks_favKey userName key])"

definition Kvrocks_searchHistoryKey :: "string \<Rightarrow> string" where
  "Kvrocks_searchHistoryKey user = ''u:'' @ user @ '':search_history''"

definition Kvrocks_getSearchHistory :: "string \<Rightarrow> (store, string list) task" where
  "Kvrocks_getSearchHistory userName =
     await (retrying (client_lrange (Kvrocks_searchHistoryKey userName) 0 (- 1)))
       (\<lambda>items. resolve (ensureStringArray items))"

definition Kvrocks_addSearchHistory :: "string \<Rightarrow> string \<Rightarrow> (store, unit) task" where
  "Kvrocks_addSearchHistory userName query =
     (let key = Kvrocks_searchHistoryKey userName in
      retrying
        (await (client_lrem key 0 query)
           (\<lambda>_. await (client_lpush key query)
              (\<lambda>_. client_ltrim key 0 (SEARCH_HISTORY_LIMIT - 1)))))"

text \<open>\<^verbatim>\<open>if (query)\<close> on the optional string: an absent and an empty query are both
  falsy.\<close>

definition Kvrocks_deleteSearchHistory :: "string \<Rightarrow> string option \<Rightarrow> (store, unit) task" where
  "Kvrocks_deleteSearchHistory userName query =
     (let key = Kvrocks_searchHistoryKey userName in
      case query of
        None \<Rightarrow> retrying (client_del [key])
      | Some q \<Rightarrow>
          if q \<noteq> [] then retrying (client_lrem key 0 q)
          else retrying (client_del [key]))"

definition Kvrocks_skipConfigKey :: "string \<Rightarrow> string \<Rightarrow> string" where
  "Kvrocks_skipConfigKey userName key = ''u:'' @ userName @ '':skip_config:'' @ key"

definition Kvrocks_getSkipConfig :: "string \<Rightarrow> string \<Rightarrow> (store, json) task" where
  "Kvrocks_getSkipConfig userName key =
     await (retrying (client_get (Kvrocks_skipConfigKey userName key)))
       (\<lambda>val. resolve (if truthy val then val else JNull))"

definition Kvrocks_setSkipConfig :: "string \<Rightarrow> string \<Rightarrow> obj \<Rightarrow> (store, unit) task" where
  "Kvrocks_setSkipConfig userName key config =
     retrying (client_set (Kvrocks_skipConfigKey userName key) (JObj config))"

definition Kvrocks_deleteSkipConfig :: "string \<Rightarrow> string \<Rightarrow> (store, unit) task" where
  "Kvrocks_deleteSkipConfig userName key =
     retrying (client_del [Kvrocks_skipConfigKey userName key])"

definition Kvrocks_getAllSkipConfigs :: "string \<Rightarrow> (store, obj) task" where
  "Kvrocks_getAllSkipConfigs userName =
     await (retrying (client_keys (''u:'' @ userName @ '':skip_config:*'')))
       (\<lambda>keys. if keys = [] then resolve []
          else await (retrying (client_mget keys))
            (\<lambda>values. resolve
               (collect_records (''u:'' @ userName @ '':skip_config:'') keys values)))"

definition Kvrocks_userKey :: "string \<Rightarrow> string" where
  "Kvrocks_userKey userName = ''user:'' @ userName"

definition Kvrocks_userListKey :: string where
  "Kvrocks_userListKey = ''user_list''"

definition Kvrocks_getUser :: "string \<Rightarrow> (store, json) task" where
  "Kvrocks_getUser userName =
     await (retrying (client_get (Kvrocks_userKey userName)))
       (\<lambda>val. resolve (if truthy val then val else JNull))"

definition Kvrocks_setUser :: "string \<Rightarrow> json \<Rightarrow> (store, unit) task" where
  "Kvrocks_setUser userName userData =
     retrying
       (await (client_set (Kvrocks_userKey userName) userData)
          (\<lambda>_. client_sadd Kvrocks_userListKey userName))"

text \<open>\<open>now\<close> is the value of \<^verbatim>\<open>Date.now()\<close> at the call.\<close>

definition Kvrocks_registerUser :: "int \<Rightarrow> string \<Rightarrow> string \<Rightarrow> (store, unit) task" where
  "Kvrocks_registerUser now userName password =
     (let userData =
        JObj [(''username'', JStr userName), (''password'', JStr password),
              (''created_at'', JNum now)]
      in Kvrocks_setUser userName userData)"

text \<open>\<^verbatim>\<open>return userData && userData.password === password\<close>: when \<open>userData\<close> is falsy,
  the value of the expression is \<open>userData\<close> itself.\<close>

definition Kvrocks_verifyUser :: "string \<Rightarrow> string \<Rightarrow> (store, json) task" where
  "Kvrocks_verifyUser userName password =
     await (Kvrocks_getUser userName)
       (\<lambda>userData. resolve
          (if truthy userData then JBool (property userData ''password'' = Some (JStr password))
           else userData))"

definition Kvrocks_checkUserExist :: "string \<Rightarrow> (store, bool) task" where
  "Kvrocks_checkUserExist userName =
     await (Kvrocks_getUser userName) (\<lambda>userData. resolve (userData \<noteq> JNull))"

definition Kvrocks_changePassword :: "string \<Rightarrow> string \<Rightarrow> (store, unit) task" where
  "Kvrocks_changePassword userName newPassword =
     await (Kvrocks_getUser userName)
       (\<lambda>userData.
          if truthy userData then
            await (assign_property userData ''password'' (JStr newPassword))
              (\<lambda>userData'. Kvrocks_setUser userName userData')
          else resolve ())"

text \<open>The \<^verbatim>\<open>for (const pattern of patterns)\<close> loop of \<^verbatim>\<open>deleteUser\<close>.\<close>

fun Kvrocks_deletePatterns :: "string list \<Rightarrow> (store, unit) task" where
  "Kvrocks_deletePatterns [] s = resolve () s"
| "Kvrocks_deletePatterns (pattern # patterns) s =
     await (client_keys pattern)
       (\<lambda>keys. await (if keys \<noteq> [] then client_del keys else resolve ())
          (\<lambda>_. Kvrocks_deletePatterns patterns)) s"

definition Kvrocks_deleteUser :: "string \<Rightarrow> (store, unit) task" where
  "Kvrocks_deleteUser userName =
     retrying
       (await (client_del [Kvrocks_userKey userName])
          (\<lambda>_. await (client_srem Kvrocks_userListKey userName)
             (\<lambda>_. Kvrocks_deletePatterns
                [''u:'' @ userName @ '':pr:*'',
                 ''u:'' @ userName @ '':fav:*'',
                 ''u:'' @ userName @ '':search_history'',
                 ''u:'' @ userName @ '':skip_config:*''])))"

definition Kvrocks_userSettingsKey :: "string \<Rightarrow> string" where
  "Kvrocks_userSettingsKey userName = ''u:'' @ userName @ '':settings''"

definition Kvrocks_getUserSettings :: "string \<Rightarrow> (store, json) task" where
  "Kvrocks_getUserSettings userName =
     await (retrying (client_get (Kvrocks_userSettingsKey userName)))
       (\<lambda>val. resolve (if truthy val then val else JNull))"

definition Kvrocks_setUserSettings :: "string \<Rightarrow> obj \<Rightarrow> (store, unit) task" where
  "Kvrocks_setUserSettings userName settings =
     retrying (client_set (Kvrocks_userSettingsKey userName) (JObj settings))"

definition Kvrocks_defaultSettings :: obj where
  "Kvrocks_defaultSettings =
     [(''filter_adult_content'', JBool True),
      (''theme'', JStr ''auto''),
      (''language'', JStr ''zh-CN''),
      (''auto_play'', JBool False),
      (''video_quality'', JStr ''auto'')]"

definition Kvrocks_updateUserSettings :: "string \<Rightarrow> obj \<Rightarrow> (store, unit) task" where
  "Kvrocks_updateUserSettings userName settings =
     await (Kvrocks_getUserSettings userName)
       (\<lambda>current.
          let updated = mergeUserSettings Kvrocks_defaultSettings (or_undefined current) settings
          in Kvrocks_setUserSettings userName updated)"

section \<open>\<^verbatim>\<open>RedisStorage\<close>\<close>

definition Redis_prKey :: "string \<Rightarrow> string \<Rightarrow> string" where
  "Redis_prKey user key = ''u:'' @ user @ '':pr:'' @ key"

definition Redis_getPlayRecord :: "string \<Rightarrow> string \<Rightarrow> (store, json) task" where
  "Redis_getPlayRecord userName key =
     await (retrying (client_get (Redis_prKey userName key)))
       (\<lambda>val. resolve (if truthy val then val else JNull))"

definition Redis_setPlayRecord :: "string \<Rightarrow> string \<Rightarrow> obj \<Rightarrow> (store, unit) task" where
  "Redis_setPlayRecord userName key record =
     retrying (client_set (Redis_prKey userName key) (JObj record))"

definition Redis_getAllPlayRecords :: "string \<Rightarrow> (store, obj) task" where
  "Redis_getAllPlayRecords userName =
     await (retrying (client_keys (''u:'' @ userName @ '':pr:*'')))
       (\<lambda>keys. if keys = [] then resolve []
          else await (retrying (client_mget keys))
            (\<lambda>values. resolve (collect_records (''u:'' @ userName @ '':pr:'') keys values)))"

definition Redis_deletePlayRecord :: "string \<Rightarrow> string \<Rightarrow> (store, unit) task" where
  "Redis_deletePlayRecord userName key = retrying (client_del [Redis_prKey userName key])"

definition Redis_favKey :: "string \<Rightarrow> string \<Rightarrow> string" where
  "Redis_favKey user key = ''u:'' @ user @ '':fav:'' @ key"

definition Redis_getFavorite :: "string \<Rightarrow> string \<Rightarrow> (store, json) task" where
  "Redis_getFavorite userName key =
     await (retrying (client_get (Redis_favKey userName key)))
       (\<lambda>val. resolve (if truthy val then val else JNull))"

definition Redis_setFavorite :: "string \<Rightarrow> string \<Rightarrow> obj \<Rightarrow> (store, unit) task" where
  "Redis_setFavorite userName key favorite =
     retrying (client_set (Redis_favKey userName key) (JObj favorite))"

definition Redis_getAllFavorites :: "string \<Rightarrow> (store, obj) task" where
  "Redis_getAllFavorites userName =
     await (retrying (client_keys (''u:'' @ userName @ '':fav:*'')))
       (\<lambda>keys. if keys = [] then resolve []
          else await (retrying (client_mget keys))
            (\<lambda>values. resolve (collect_records (''u:'' @ userName @ '':fav:'') keys values)))"

definition Redis_deleteFavorite :: "string \<Rightarrow> string \<Rightarrow> (store, unit) task" where
  "Redis_deleteFavorite userName key = retrying (client_del [Redis_favKey userName key])"

definition Redis_userPwdKey :: "string \<Rightarrow> string" where
  "Redis_userPwdKey user = ''u:'' @ user @ '':pwd''"

definition Redis_registerUser :: "string \<Rightarrow> string \<Rightarrow> (store, unit) task" where
  "Redis_registerUser userName password =
     retrying (client_set (Redis_userPwdKey userName) (JStr password))"

text \<open>\<^verbatim>\<open>return stored ? ensureString(stored) === password : false\<close>.\<close>

definition Redis_verifyUser :: "string \<Rightarrow> string \<Rightarrow> (store, json) task" where
  "Redis_verifyUser userName password =
     await (retrying (client_get (Redis_userPwdKey userName)))
       (\<lambda>stored. resolve
          (if truthy stored then JBool (ensureString stored = password) else JBool False))"

definition Redis_checkUserExist :: "string \<Rightarrow> (store, bool) task" where
  "Redis_checkUserExist userName =
     await (retrying (client_exists (Redis_userPwdKey userName)))
       (\<lambda>exists. resolve (exists = 1))"

definition Redis_changePassword :: "string \<Rightarrow> string \<Rightarrow> (store, unit) task" where
  "Redis_changePassword userName newPassword =
     retrying (client_set (Redis_userPwdKey userName) (JStr newPassword))"

definition Redis_shKey :: "string \<Rightarrow> string" where
  "Redis_shKey user = ''u:'' @ user @ '':sh''"

definition Redis_userSettingsKey :: "string \<Rightarrow> string" where
  "Redis_userSettingsKey user = ''u:'' @ user @ '':settings''"

definition Redis_deleteUser :: "string \<Rightarrow> (store, unit) task" where
  "Redis_deleteUser userName =
     await (retrying (client_del [Redis_userPwdKey userName]))
       (\<lambda>_. await (retrying (client_del [Redis_shKey userName]))
       (\<lambda>_. await (retrying (client_keys (''u:'' @ userName @ '':pr:*'')))
       (\<lambda>playRecordKeys.
          await (if playRecordKeys \<noteq> [] then retrying (client_del playRecordKeys)
                 else resolve ())
       (\<lambda>_. await (retrying (client_keys (''u:'' @ userName @ '':fav:*'')))
       (\<lambda>favoriteKeys.
          await (if favoriteKeys \<noteq> [] then retrying (client_del favoriteKeys)
                 else resolve ())
       (\<lambda>_. retrying (client_del [Redis_userSettingsKey userName])))))))"

definition Redis_defaultSettings :: obj where
  "Redis_defaultSettings =
     [(''filter_adult_content'', JBool True),
      (''theme'', JStr ''auto''),
      (''language'', JStr ''zh-CN''),
      (''auto_play'', JBool True),
      (''video_quality'', JStr ''auto'')]"

definition Redis_getUserSettings :: "string \<Rightarrow> (store, json) task" where
  "Redis_getUserSettings userName =
     await (retrying (client_get (Redis_userSettingsKey userName)))
       (\<lambda>data. if truthy data then resolve data else resolve (JObj Redis_defaultSettings))"

definition Redis_setUserSettings :: "string \<Rightarrow> obj \<Rightarrow> (store, unit) task" where
  "Redis_setUserSettings userName settings =
     retrying (client_set (Redis_userSettingsKey userName) (JObj settings))"

definition Redis_updateUserSettings :: "string \<Rightarrow> obj \<Rightarrow> (store, unit) task" where
  "Redis_updateUserSettings userName settings =
     await (Redis_getUserSettings userName)
       (\<lambda>current.
          let updated = mergeUserSettings Redis_defaultSettings (or_undefined current) settings
          in Redis_setUserSettings userName updated)"

definition Redis_getSearchHistory :: "string \<Rightarrow> (store, string list) task" where
  "Redis_getSearchHistory userName =
     await (retrying (client_lrange (Redis_shKey userName) 0 (- 1)))
       (\<lambda>list. resolve (ensureStringArray list))"

definition Redis_addSearchHistory :: "string \<Rightarrow> string \<Rightarrow> (store, unit) task" where
  "Redis_addSearchHistory userName keyword =
     (let key = Redis_shKey userName in
      await (retrying (client_lrem key 0 keyword))
        (\<lambda>_. await (retrying (client_lpush key keyword))
           (\<lambda>_. retrying (client_ltrim key 0 (SEARCH_HISTORY_LIMIT - 1)))))"

definition Redis_deleteSearchHistory :: "string \<Rightarrow> string option \<Rightarrow> (store, unit) task" where
  "Redis_deleteSearchHistory userName keyword =
     (let key = Redis_shKey userName in
      case keyword of
        None \<Rightarrow> retrying (client_del [key])
      | Some q \<Rightarrow>
          if q \<noteq> [] then retrying (client_lrem key 0 q)
          else retrying (client_del [key]))"

definition Redis_skipConfigKey :: "string \<Rightarrow> string \<Rightarrow> string" where
  "Redis_skipConfigKey userName key = ''katelyatv:skip_config:'' @ userName @ '':'' @ key"

definition Redis_skipConfigsKey :: "string \<Rightarrow> string" where
  "Redis_skipConfigsKey userName = ''katelyatv:skip_configs:'' @ userName"

definition Redis_getSkipConfig :: "string \<Rightarrow> string \<Rightarrow> (store, json) task" where
  "Redis_getSkipConfig userName key =
     await (retrying (client_get (Redis_skipConfigKey userName key)))
       (\<lambda>data. resolve (if truthy data then data else JNull))"

definition Redis_setSkipConfig :: "string \<Rightarrow> string \<Rightarrow> obj \<Rightarrow> (store, unit) task" where
  "Redis_setSkipConfig userName key config =
     retrying
       (await (client_set (Redis_skipConfigKey userName key) (JObj config))
          (\<lambda>_. client_sadd (Redis_skipConfigsKey userName) key))"

text \<open>The \<^verbatim>\<open>for (const k of keys)\<close> loop of \<^verbatim>\<open>getAllSkipConfigs\<close>. The members arrive
  deserialised; the template literal of \<^verbatim>\<open>skipConfigKey\<close> and the property name
  \<^verbatim>\<open>configs[k]\<close> both take \<^verbatim>\<open>String(k)\<close>.\<close>

fun Redis_collectSkipConfigs :: "string \<Rightarrow> json list \<Rightarrow> obj \<Rightarrow> (store, obj) task" where
  "Redis_collectSkipConfigs userName [] configs s = resolve configs s"
| "Redis_collectSkipConfigs userName (k # keys) configs s =
     await (retrying (client_get (Redis_skipConfigKey userName (ensureString k))))
       (\<lambda>data. Redis_collectSkipConfigs userName keys
          (if truthy data then AList.update (ensureString k) data configs else configs)) s"

definition Redis_getAllSkipConfigs :: "string \<Rightarrow> (store, obj) task" where
  "Redis_getAllSkipConfigs userName =
     await (retrying (client_smembers (Redis_skipConfigsKey userName)))
       (\<lambda>keys. Redis_collectSkipConfigs userName (map deserialize keys) [])"

definition Redis_deleteSkipConfig :: "string \<Rightarrow> string \<Rightarrow> (store, unit) task" where
  "Redis_deleteSkipConfig userName key =
     retrying
       (await (client_del [Redis_skipConfigKey userName key])
          (\<lambda>_. client_srem (Redis_skipConfigsKey userName) key))"

section \<open>Notions used in the statements\<close>

text \<open>An operation is permanent when none of its failures is classified as a
  connection error, so that \<^verbatim>\<open>withRetry\<close> never repeats it.\<close>

definition permanent :: "('s, 'a) task \<Rightarrow> bool" where
  "permanent operation = (\<forall>s e s'. operation s = (Inl e, s') \<longrightarrow> \<not> isConnectionError e)"

text \<open>
  The precedence rule of the settings merge in the words of the specification: the
  value of \<open>partial\<close> if it is defined, else the value of \<open>current\<close> if \<open>current\<close>
  exists and the field is defined there, else the value of \<open>defaults\<close>. Defined means
  neither undefined nor null, as \<^verbatim>\<open>??\<close> tests it.
\<close>

definition resolved :: "obj \<Rightarrow> json option \<Rightarrow> obj \<Rightarrow> string \<Rightarrow> json option" where
  "resolved defaults current partial field =
     (if \<not> nullish (map_of partial field) then map_of partial field
      else if \<not> nullish current \<and> \<not> nullish (opt_prop current field)
        then opt_prop current field
      else map_of defaults field)"

text \<open>A settings value with all five fields present.\<close>

definition fully_populated :: "json \<Rightarrow> bool" where
  "fully_populated v =
     (\<not> nullish (property v ''filter_adult_content'') \<and>
      \<not> nullish (property v ''theme'') \<and>
      \<not> nullish (property v ''language'') \<and>
      \<not> nullish (property v ''auto_play'') \<and>
      \<not> nullish (property v ''video_quality''))"

text \<open>An operation that fails with a connection reset on its first two calls and
  succeeds from the third on; its state counts the calls.\<close>

definition flaky :: "(nat, string) task" where
  "flaky calls =
     (if calls < 2 then (Inl \<lparr>message = None, code = Some ''ECONNRESET''\<rparr>, Suc calls)
      else (Inr ''ok'', Suc calls))"

text \<open>A call of \<^verbatim>\<open>addSearchHistory(userName, query)\<close> or of
  \<^verbatim>\<open>deleteSearchHistory(userName, query?)\<close>, and the store after such a call on each
  adapter (whether the call resolved or threw).\<close>

datatype sh_call = AddSearchHistory string string | DeleteSearchHistory string "string option"

fun Kvrocks_call :: "store \<Rightarrow> sh_call \<Rightarrow> store" where
  "Kvrocks_call s (AddSearchHistory userName query) = snd (Kvrocks_addSearchHistory userName query s)"
| "Kvrocks_call s (DeleteSearchHistory userName query) = snd (Kvrocks_deleteSearchHistory userName query s)"

fun Redis_call :: "store \<Rightarrow> sh_call \<Rightarrow> store" where
  "Redis_call s (AddSearchHistory userName query) = snd (Redis_addSearchHistory userName query s)"
| "Redis_call s (DeleteSearchHistory userName query) = snd (Redis_deleteSearchHistory userName query s)"

text \<open>\<open>last_added cs u q\<close> is the position, counted from 1, of the last call in \<open>cs\<close>
  that adds \<open>q\<close> for user \<open>u\<close>, and 0 when there is none. A history is most recent
  first when each entry was last added later than the entries after it.\<close>

fun last_added :: "sh_call list \<Rightarrow> string \<Rightarrow> string \<Rightarrow> nat" where
  "last_added [] u q = 0"
| "last_added (c # cs) u q =
     (if 0 < last_added cs u q then Suc (last_added cs u q)
      else if c = AddSearchHistory u q then 1 else 0)"

definition most_recent_first :: "sh_call list \<Rightarrow> string \<Rightarrow> string list \<Rightarrow> bool" where
  "most_recent_first cs u h = sorted_wrt (\<lambda>x y. last_added cs u y < last_added cs u x) h"

text \<open>The three search-history methods over a given key; both adapters are instances
  (\<open>Kvrocks_history\<close>, \<open>Redis_history\<close> below).\<close>

definition history_push :: "string \<Rightarrow> string \<Rightarrow> (store, unit) task" where
  "history_push K q =
     await (client_lrem K 0 q) (\<lambda>_. await (client_lpush K q) (\<lambda>_. client_ltrim K 0 19))"

definition history_remove :: "string \<Rightarrow> string option \<Rightarrow> (store, unit) task" where
  "history_remove K query =
     (case query of None \<Rightarrow> client_del [K]
      | Some q \<Rightarrow> if q \<noteq> [] then client_lrem K 0 q else client_del [K])"

definition history_read :: "string \<Rightarrow> (store, string list) task" where
  "history_read K = await (client_lrange K 0 (- 1)) (\<lambda>items. resolve (map ensureString items))"

fun history_call :: "(string \<Rightarrow> string) \<Rightarrow> store \<Rightarrow> sh_call \<Rightarrow> store" where
  "history_call keyf s (AddSearchHistory u q) = snd (history_push (keyf u) q s)"
| "history_call keyf s (DeleteSearchHistory u q) = snd (history_remove (keyf u) q s)"

text \<open>The entries of user \<open>u\<close> after a call, from the entries \<open>h\<close> before it.\<close>

fun entries_after :: "string \<Rightarrow> string list \<Rightarrow> sh_call \<Rightarrow> string list" where
  "entries_after u h (AddSearchHistory u' q) = (if u' = u then q # take 19 (removeAll q h) else h)"
| "entries_after u h (DeleteSearchHistory u' query) =
     (if u' = u then (case query of None \<Rightarrow> [] | Some q \<Rightarrow> if q \<noteq> [] then removeAll q h else []) else h)"

text \<open>A call \<^verbatim>\<open>setSkipConfig(userName, key, config)\<close> of the Redis adapter, given as
  the triple of its arguments, and the content keys that a list of such calls writes for
  a user.\<close>

fun Redis_setSkipConfig_call :: "store \<Rightarrow> string \<times> string \<times> obj \<Rightarrow> store" where
  "Redis_setSkipConfig_call s (userName, key, config) = snd (Redis_setSkipConfig userName key config s)"

definition keys_written :: "(string \<times> string \<times> obj) list \<Rightarrow> string \<Rightarrow> string list" where
  "keys_written calls userName = map (\<lambda>(u, k, c). k) (filter (\<lambda>(u, k, c). u = userName) calls)"

section \<open>Basic facts\<close>

subsection \<open>Retrying an operation that cannot fail transiently\<close>

lemma retrying_permanent: "permanent operation \<Longrightarrow> retrying operation = operation"
proof
  fix s
  assume p: "permanent operation"
  show "retrying operation s = operation s"
  proof (cases "operation s")
    case (Pair r s')
    then show ?thesis
      using p
      by (cases r)
        (auto simp: retrying_def withRetry_def permanent_def
           withRetry_loop.simps[of operation 3 0])
  qed
qed

lemma wrongtype_permanent [simp]: "\<not> isConnectionError wrongtype"
  by (simp add: isConnectionError_def message_includes_def wrongtype_def Error_def)

lemma wrong_arguments_permanent [simp]: "\<not> isConnectionError wrong_arguments"
  by (simp add: isConnectionError_def message_includes_def wrong_arguments_def Error_def)

lemma permanent_await: "permanent m \<Longrightarrow> (\<And>v. permanent (f v)) \<Longrightarrow> permanent (await m f)"
  by (auto simp: permanent_def await_def split: prod.splits sum.splits)

lemma permanent_resolve [simp]: "permanent (resolve v)"
  by (simp add: permanent_def resolve_def)

lemma permanent_client [simp]:
  "permanent (client_get k)" "permanent (client_set k v)" "permanent (client_mget ks)"
  "permanent (client_del ks)" "permanent (client_exists k)" "permanent (client_keys pat)"
  "permanent (client_lrange k a b)" "permanent (client_lrem k a q)"
  "permanent (client_lpush k q)" "permanent (client_ltrim k a b)"
  "permanent (client_sadd k q)" "permanent (client_srem k q)" "permanent (client_smembers k)"
  by (auto simp: permanent_def client_get_def client_set_def client_mget_def client_del_def
      client_exists_def client_keys_def client_lrange_def client_lrem_def client_lpush_def
      client_ltrim_def client_sadd_def client_srem_def client_smembers_def list_at_def
      set_at_def
      split: option.splits entry.splits sum.splits if_splits)

lemma retrying_client [simp]:
  "retrying (client_get k) = client_get k" "retrying (client_set k v) = client_set k v"
  "retrying (client_mget ks) = client_mget ks" "retrying (client_del ks) = client_del ks"
  "retrying (client_exists k) = client_exists k" "retrying (client_keys pat) = client_keys pat"
  "retrying (client_lrange k a b) = client_lrange k a b"
  "retrying (client_lrem k a q) = client_lrem k a q"
  "retrying (client_lpush k q) = client_lpush k q"
  "retrying (client_ltrim k a b) = client_ltrim k a b"
  "retrying (client_sadd k q) = client_sadd k q" "retrying (client_srem k q) = client_srem k q"
  "retrying (client_smembers k) = client_smembers k"
  by (simp_all add: retrying_permanent)

lemma retrying_await [simp]:
  "permanent m \<Longrightarrow> (\<And>v. permanent (f v)) \<Longrightarrow> retrying (await m f) = await m f"
  by (simp add: retrying_permanent permanent_await)

subsection \<open>Outcome and state of a sequence of operations\<close>

lemma fst_await:
  "fst (await m f s) = (case fst (m s) of Inl e \<Rightarrow> Inl e | Inr v \<Rightarrow> fst (f v (snd (m s))))"
  by (simp add: await_def split: prod.splits sum.splits)

lemma snd_await:
  "snd (await m f s) = (case fst (m s) of Inl e \<Rightarrow> snd (m s) | Inr v \<Rightarrow> snd (f v (snd (m s))))"
  by (simp add: await_def split: prod.splits sum.splits)

lemma fst_resolve [simp]: "fst (resolve v s) = Inr v"
  by (simp add: resolve_def)

lemma snd_resolve [simp]: "snd (resolve v s) = s"
  by (simp add: resolve_def)

subsection \<open>What the commands do to the entry of a key\<close>

lemma map_of_filter_notin:
  "map_of (filter (\<lambda>(k', e). k' \<notin> K) s) k = (if k \<in> K then None else map_of s k)"
  by (induction s) auto

lemma lookup_set [simp]: "map_of (snd (client_set k v s)) = (map_of s)(k \<mapsto> Str v)"
  by (simp add: client_set_def update_conv')

lemma fst_client_set [simp]: "fst (client_set k v s) = Inr ()"
  by (simp add: client_set_def)

lemma lookup_del [simp]:
  "map_of (snd (client_del ks s)) k' = (if k' \<in> set ks then None else map_of s k')"
  unfolding client_del_def by (simp only: map_of_filter_notin snd_conv split: if_splits) simp

lemma fst_client_del: "fst (client_del ks s) = (if ks = [] then Inl wrong_arguments else Inr ())"
  by (simp add: client_del_def)

lemma lookup_put_list [simp]:
  "map_of (put_list k xs s) =
     (if xs = [] then (map_of s)(k := None) else (map_of s)(k \<mapsto> Lst xs))"
  by (simp add: put_list_def update_conv' delete_conv')

lemma lookup_put_set [simp]:
  "map_of (put_set k xs s) =
     (if xs = [] then (map_of s)(k := None) else (map_of s)(k \<mapsto> Set xs))"
  by (simp add: put_set_def update_conv' delete_conv')

lemma get_result:
  "fst (client_get k s) =
     (case map_of s k of
        None \<Rightarrow> Inr JNull
      | Some (Str v) \<Rightarrow> Inr (stored_value v)
      | Some other \<Rightarrow> Inl wrongtype)"
  by (simp add: client_get_def split: option.splits entry.splits)

lemma get_state [simp]: "snd (client_get k s) = s"
  by (simp add: client_get_def split: option.splits entry.splits)

lemma lookup_sadd_other: "k' \<noteq> k \<Longrightarrow> map_of (snd (client_sadd k m s)) k' = map_of s k'"
  by (simp add: client_sadd_def split: sum.splits)

lemma lookup_srem_other: "k' \<noteq> k \<Longrightarrow> map_of (snd (client_srem k m s)) k' = map_of s k'"
  by (simp add: client_srem_def split: sum.splits)

lemma Redis_skip_keys_differ: "Redis_skipConfigKey u k \<noteq> Redis_skipConfigsKey u'"
  by (simp add: Redis_skipConfigKey_def Redis_skipConfigsKey_def)

section \<open>Keyed records: set, get, delete\<close>

lemma Kvrocks_playRecord_roundtrip:
  "fst (Kvrocks_getPlayRecord u k (snd (Kvrocks_setPlayRecord u k r s))) = Inr (JObj r)"
  "fst (Kvrocks_getPlayRecord u k (snd (Kvrocks_deletePlayRecord u k s))) = Inr JNull"
  by (simp_all add: Kvrocks_getPlayRecord_def Kvrocks_setPlayRecord_def
      Kvrocks_deletePlayRecord_def fst_await get_result)

lemma Kvrocks_favorite_roundtrip:
  "fst (Kvrocks_getFavorite u k (snd (Kvrocks_setFavorite u k r s))) = Inr (JObj r)"
  "fst (Kvrocks_getFavorite u k (snd (Kvrocks_deleteFavorite u k s))) = Inr JNull"
  by (simp_all add: Kvrocks_getFavorite_def Kvrocks_setFavorite_def
      Kvrocks_deleteFavorite_def fst_await get_result)

lemma Kvrocks_skipConfig_roundtrip:
  "fst (Kvrocks_getSkipConfig u k (snd (Kvrocks_setSkipConfig u k r s))) = Inr (JObj r)"
  "fst (Kvrocks_getSkipConfig u k (snd (Kvrocks_deleteSkipConfig u k s))) = Inr JNull"
  by (simp_all add: Kvrocks_getSkipConfig_def Kvrocks_setSkipConfig_def
      Kvrocks_deleteSkipConfig_def fst_await get_result)

lemma Redis_playRecord_roundtrip:
  "fst (Redis_getPlayRecord u k (snd (Redis_setPlayRecord u k r s))) = Inr (JObj r)"
  "fst (Redis_getPlayRecord u k (snd (Redis_deletePlayRecord u k s))) = Inr JNull"
  by (simp_all add: Redis_getPlayRecord_def Redis_setPlayRecord_def
      Redis_deletePlayRecord_def fst_await get_result)

lemma Redis_favorite_roundtrip:
  "fst (Redis_getFavorite u k (snd (Redis_setFavorite u k r s))) = Inr (JObj r)"
  "fst (Redis_getFavorite u k (snd (Redis_deleteFavorite u k s))) = Inr JNull"
  by (simp_all add: Redis_getFavorite_def Redis_setFavorite_def
      Redis_deleteFavorite_def fst_await get_result)

lemma Redis_skipConfig_roundtrip:
  "fst (Redis_getSkipConfig u k (snd (Redis_setSkipConfig u k r s))) = Inr (JObj r)"
  "fst (Redis_getSkipConfig u k (snd (Redis_deleteSkipConfig u k s))) = Inr JNull"
  by (simp_all add: Redis_getSkipConfig_def Redis_setSkipConfig_def Redis_deleteSkipConfig_def
      fst_await snd_await get_result fst_client_del lookup_sadd_other lookup_srem_other
      Redis_skip_keys_differ)

text \<open>
  Claim C9. For every user name, content key and record, and for play records,
  favorites and skip configurations on both adapters: a get after a set of the same
  user and key resolves to the record that was written, and a get after a delete
  resolves to null.
\<close>

theorem keyed_set_get_delete:
  "fst (Kvrocks_getPlayRecord u k (snd (Kvrocks_setPlayRecord u k r s))) = Inr (JObj r) \<and>
   fst (Kvrocks_getPlayRecord u k (snd (Kvrocks_deletePlayRecord u k s))) = Inr JNull \<and>
   fst (Kvrocks_getFavorite u k (snd (Kvrocks_setFavorite u k r s))) = Inr (JObj r) \<and>
   fst (Kvrocks_getFavorite u k (snd (Kvrocks_deleteFavorite u k s))) = Inr JNull \<and>
   fst (Kvrocks_getSkipConfig u k (snd (Kvrocks_setSkipConfig u k r s))) = Inr (JObj r) \<and>
   fst (Kvrocks_getSkipConfig u k (snd (Kvrocks_deleteSkipConfig u k s))) = Inr JNull \<and>
   fst (Redis_getPlayRecord u k (snd (Redis_setPlayRecord u k r s))) = Inr (JObj r) \<and>
   fst (Redis_getPlayRecord u k (snd (Redis_deletePlayRecord u k s))) = Inr JNull \<and>
   fst (Redis_getFavorite u k (snd (Redis_setFavorite u k r s))) = Inr (JObj r) \<and>
   fst (Redis_getFavorite u k (snd (Redis_deleteFavorite u k s))) = Inr JNull \<and>
   fst (Redis_getSkipConfig u k (snd (Redis_setSkipConfig u k r s))) = Inr (JObj r) \<and>
   fst (Redis_getSkipConfig u k (snd (Redis_deleteSkipConfig u k s))) = Inr JNull"
  by (simp only: Kvrocks_playRecord_roundtrip Kvrocks_favorite_roundtrip
      Kvrocks_skipConfig_roundtrip Redis_playRecord_roundtrip Redis_favorite_roundtrip
      Redis_skipConfig_roundtrip simp_thms)

text \<open>The witness of C9, on the skip configuration of the specification's scenario.\<close>

theorem keyed_set_get_delete_witness:
  "fst (Redis_getSkipConfig ''bob'' ''ep1''
     (snd (Redis_setSkipConfig ''bob'' ''ep1''
        [(''introEnd'', JNum 90), (''outroStart'', JNum 1300)] []))) =
     Inr (JObj [(''introEnd'', JNum 90), (''outroStart'', JNum 1300)]) \<and>
   fst (Redis_getSkipConfig ''bob'' ''ep1'' (snd (Redis_deleteSkipConfig ''bob'' ''ep1'' []))) =
     Inr JNull \<and>
   fst (Kvrocks_getPlayRecord ''bob'' ''ep1''
     (snd (Kvrocks_setPlayRecord ''bob'' ''ep1'' [(''play_time'', JNum 42)] []))) =
     Inr (JObj [(''play_time'', JNum 42)])"
  using keyed_set_get_delete
    [of "''bob''" "''ep1''" "[(''introEnd'', JNum 90), (''outroStart'', JNum 1300)]" "[]"]
    keyed_set_get_delete [of "''bob''" "''ep1''" "[(''play_time'', JNum 42)]" "[]"]
  by simp

section \<open>The settings merge\<close>

lemma map_of_object_literal:
  "distinct (map fst ps) \<Longrightarrow>
   map_of (object_literal ps) f = (case map_of ps f of None \<Rightarrow> None | Some v \<Rightarrow> v)"
proof (induction ps rule: object_literal.induct)
  case 1
  then show ?case by simp
next
  case (2 name ps)
  then have "map_of ps name = None"
    by (simp add: map_of_eq_None_iff)
  with 2 show ?case
    by (auto split: option.splits)
next
  case (3 name v ps)
  then show ?case
    by (auto split: option.splits)
qed

lemma opt_prop_nullish: "nullish c \<Longrightarrow> opt_prop c f = None"
  by (cases c rule: nullish.cases) simp_all

lemma coalesce_resolved:
  "coalesce (coalesce (map_of p f) (opt_prop c f)) (map_of d f) = resolved d c p f"
  by (auto simp: coalesce_def resolved_def opt_prop_nullish)

lemma merge_fields:
  "map_of (mergeUserSettings d c p) ''filter_adult_content'' =
     resolved d c p ''filter_adult_content''"
  "map_of (mergeUserSettings d c p) ''theme'' = resolved d c p ''theme''"
  "map_of (mergeUserSettings d c p) ''language'' = resolved d c p ''language''"
  "map_of (mergeUserSettings d c p) ''auto_play'' = resolved d c p ''auto_play''"
  "map_of (mergeUserSettings d c p) ''video_quality'' = resolved d c p ''video_quality''"
  unfolding mergeUserSettings_def
  by (simp_all add: map_of_object_literal coalesce_resolved)

text \<open>
  Claim C8. \<^verbatim>\<open>mergeUserSettings(defaults, current, partial)\<close> resolves each of the five
  settings fields on its own, by the precedence partial over current over defaults:
  the field of the result is the value of \<open>partial\<close> if that is defined, else the value
  of \<open>current\<close> if \<open>current\<close> exists and the field is defined there, else the value of
  \<open>defaults\<close>.
\<close>

theorem mergeUserSettings_precedence:
  "map_of (mergeUserSettings defaults current partial) ''filter_adult_content'' =
     resolved defaults current partial ''filter_adult_content'' \<and>
   map_of (mergeUserSettings defaults current partial) ''theme'' =
     resolved defaults current partial ''theme'' \<and>
   map_of (mergeUserSettings defaults current partial) ''language'' =
     resolved defaults current partial ''language'' \<and>
   map_of (mergeUserSettings defaults current partial) ''auto_play'' =
     resolved defaults current partial ''auto_play'' \<and>
   map_of (mergeUserSettings defaults current partial) ''video_quality'' =
     resolved defaults current partial ''video_quality''"
  by (simp only: merge_fields simp_thms)

text \<open>The witness of C8: one field decided by each of the three levels.\<close>

theorem mergeUserSettings_precedence_witness:
  "map_of (mergeUserSettings Kvrocks_defaultSettings
       (Some (JObj [(''theme'', JStr ''light''), (''language'', JStr ''en'')]))
       [(''theme'', JStr ''dark'')]) ''theme'' = Some (JStr ''dark'') \<and>
   map_of (mergeUserSettings Kvrocks_defaultSettings
       (Some (JObj [(''theme'', JStr ''light''), (''language'', JStr ''en'')]))
       [(''theme'', JStr ''dark'')]) ''language'' = Some (JStr ''en'') \<and>
   map_of (mergeUserSettings Kvrocks_defaultSettings
       (Some (JObj [(''theme'', JStr ''light''), (''language'', JStr ''en'')]))
       [(''theme'', JStr ''dark'')]) ''auto_play'' = Some (JBool False)"
  using mergeUserSettings_precedence
    [of Kvrocks_defaultSettings
        "Some (JObj [(''theme'', JStr ''light''), (''language'', JStr ''en'')])"
        "[(''theme'', JStr ''dark'')]"]
  by (simp add: resolved_def Kvrocks_defaultSettings_def)

section \<open>Evaluating the adapters on given stores\<close>

text \<open>The strings of the scenarios below are not JSON texts: the client hands them
  back as they are.\<close>

lemma deserialize_plain [simp]:
  "deserialize [] = JStr []"
  "deserialize ''x'' = JStr ''x''"
  "deserialize ''p1'' = JStr ''p1''"
  "deserialize ''p2'' = JStr ''p2''"
  "deserialize ''ep1'' = JStr ''ep1''"
  "deserialize ''a'' = JStr ''a''"
  "deserialize ''b'' = JStr ''b''"
  by code_simp+

lemmas eval_defs =
  await_def resolve_def reject_def client_get_def client_set_def client_del_def
  client_exists_def client_keys_def client_mget_def client_lrange_def client_lrem_def
  client_lpush_def client_ltrim_def client_sadd_def client_srem_def client_smembers_def
  list_at_def set_at_def put_list_def put_set_def

lemma Kvrocks_deletePatterns_Cons:
  "Kvrocks_deletePatterns (pattern # patterns) =
     await (client_keys pattern)
       (\<lambda>keys. await (if keys \<noteq> [] then client_del keys else resolve ())
          (\<lambda>_. Kvrocks_deletePatterns patterns))"
  by (rule ext) simp

lemma permanent_deletePatterns [simp]: "permanent (Kvrocks_deletePatterns patterns)"
proof (induction patterns)
  case Nil
  then show ?case
    by (simp add: permanent_def resolve_def)
next
  case (Cons pattern patterns)
  then show ?case
    unfolding Kvrocks_deletePatterns_Cons
    by (intro permanent_await) simp_all
qed

section \<open>Reading the settings of a user\<close>

text \<open>
  Claim C2 says that \<^verbatim>\<open>getUserSettings\<close> returns a fully populated default object on
  both adapters when nothing is stored. On the Kvrocks adapter it returns null: here
  for the user alice on the empty store.
\<close>

theorem Kvrocks_getUserSettings_null:
  "fst (Kvrocks_getUserSettings ''alice'' []) = Inr JNull"
  by (simp add: Kvrocks_getUserSettings_def eval_defs)

text \<open>
  Claim C2, amended. When nothing is stored for the user, \<^verbatim>\<open>getUserSettings\<close> of the
  Redis adapter returns the default settings object, which has all five fields, rather
  than null; \<^verbatim>\<open>getUserSettings\<close> of the Kvrocks adapter returns null.
\<close>

theorem getUserSettings_nothing_stored:
  assumes "map_of s (Redis_userSettingsKey u) = None"
  shows "fst (Redis_getUserSettings u s) = Inr (JObj Redis_defaultSettings) \<and>
         fully_populated (JObj Redis_defaultSettings) \<and>
         fst (Kvrocks_getUserSettings u s) = Inr JNull"
  using assms
  by (simp add: Redis_getUserSettings_def Kvrocks_getUserSettings_def fst_await get_result
      fully_populated_def Redis_defaultSettings_def Redis_userSettingsKey_def
      Kvrocks_userSettingsKey_def)

theorem getUserSettings_nothing_stored_witness:
  "map_of ([] :: store) (Redis_userSettingsKey ''alice'') = None \<and>
   fst (Redis_getUserSettings ''alice'' []) = Inr (JObj Redis_defaultSettings) \<and>
   fully_populated (JObj Redis_defaultSettings) \<and>
   fst (Kvrocks_getUserSettings ''alice'' []) = Inr JNull"
  using getUserSettings_nothing_stored [of "[]" "''alice''"]
  by simp

section \<open>Updating the settings of a user\<close>

text \<open>
  Claim C4 says that \<^verbatim>\<open>updateUserSettings\<close> writes the same record on both adapters.
  For a user with nothing stored and the update \<^verbatim>\<open>{theme: "dark"}\<close>, the Kvrocks
  adapter writes \<^verbatim>\<open>auto_play: false\<close> and the Redis adapter \<^verbatim>\<open>auto_play: true\<close>: the
  default objects of the two \<^verbatim>\<open>updateUserSettings\<close> differ in that field.
\<close>

theorem updateUserSettings_backends_differ:
  "snd (Kvrocks_updateUserSettings ''alice'' [(''theme'', JStr ''dark'')] []) =
     [(''u:alice:settings'', Str (JObj
        [(''filter_adult_content'', JBool True), (''theme'', JStr ''dark''),
         (''language'', JStr ''zh-CN''), (''auto_play'', JBool False),
         (''video_quality'', JStr ''auto'')]))] \<and>
   snd (Redis_updateUserSettings ''alice'' [(''theme'', JStr ''dark'')] []) =
     [(''u:alice:settings'', Str (JObj
        [(''filter_adult_content'', JBool True), (''theme'', JStr ''dark''),
         (''language'', JStr ''zh-CN''), (''auto_play'', JBool True),
         (''video_quality'', JStr ''auto'')]))] \<and>
   snd (Kvrocks_updateUserSettings ''alice'' [(''theme'', JStr ''dark'')] []) \<noteq>
   snd (Redis_updateUserSettings ''alice'' [(''theme'', JStr ''dark'')] [])"
  by (simp add: Kvrocks_updateUserSettings_def Redis_updateUserSettings_def
      Kvrocks_getUserSettings_def Redis_getUserSettings_def Kvrocks_setUserSettings_def
      Redis_setUserSettings_def Kvrocks_userSettingsKey_def Redis_userSettingsKey_def
      or_undefined_def coalesce_def mergeUserSettings_def Kvrocks_defaultSettings_def
      Redis_defaultSettings_def eval_defs)

section \<open>Accounts\<close>

text \<open>The scenario of the specification holds on both adapters: register alice with
  p1, change the password to p2; then p1 is refused and p2 accepted.\<close>

lemma alice_scenario_Kvrocks:
  "fst (Kvrocks_verifyUser ''alice'' ''p1''
     (snd (Kvrocks_registerUser now ''alice'' ''p1'' []))) = Inr (JBool True)"
  "fst (Kvrocks_verifyUser ''alice'' ''p1''
     (snd (Kvrocks_changePassword ''alice'' ''p2''
        (snd (Kvrocks_registerUser now ''alice'' ''p1'' []))))) = Inr (JBool False)"
  "fst (Kvrocks_verifyUser ''alice'' ''p2''
     (snd (Kvrocks_changePassword ''alice'' ''p2''
        (snd (Kvrocks_registerUser now ''alice'' ''p1'' []))))) = Inr (JBool True)"
  by (simp_all add: Kvrocks_verifyUser_def Kvrocks_getUser_def Kvrocks_registerUser_def
      Kvrocks_changePassword_def Kvrocks_setUser_def Kvrocks_userKey_def
      Kvrocks_userListKey_def permanent_await eval_defs)

lemma alice_scenario_Redis:
  "fst (Redis_verifyUser ''alice'' ''p1''
     (snd (Redis_registerUser ''alice'' ''p1'' []))) = Inr (JBool True)"
  "fst (Redis_verifyUser ''alice'' ''p1''
     (snd (Redis_changePassword ''alice'' ''p2''
        (snd (Redis_registerUser ''alice'' ''p1'' []))))) = Inr (JBool False)"
  "fst (Redis_verifyUser ''alice'' ''p2''
     (snd (Redis_changePassword ''alice'' ''p2''
        (snd (Redis_registerUser ''alice'' ''p1'' []))))) = Inr (JBool True)"
  by (simp_all add: Redis_verifyUser_def Redis_registerUser_def Redis_changePassword_def
      Redis_userPwdKey_def eval_defs)

text \<open>
  Claim C5 says that \<^verbatim>\<open>verifyUser\<close> returns a boolean, true exactly when the account
  exists and the stored password equals the given one, false otherwise. Two inputs where
  the code does otherwise. On the Kvrocks adapter, for a user without an account, the
  value is null, not false. On the Redis adapter, for an account registered with the
  empty password, \<^verbatim>\<open>checkUserExist\<close> is true and the stored password equals the given
  one, yet the value is false; the Kvrocks adapter accepts the same login.
\<close>

theorem verifyUser_failing_inputs:
  "fst (Kvrocks_verifyUser ''ghost'' ''x'' []) = Inr JNull \<and>
   fst (Redis_checkUserExist ''alice'' (snd (Redis_registerUser ''alice'' '''' []))) =
     Inr True \<and>
   fst (Redis_verifyUser ''alice'' '''' (snd (Redis_registerUser ''alice'' '''' []))) =
     Inr (JBool False) \<and>
   fst (Kvrocks_verifyUser ''alice'' '''' (snd (Kvrocks_registerUser 0 ''alice'' '''' []))) =
     Inr (JBool True)"
  by (simp add: Kvrocks_verifyUser_def Kvrocks_getUser_def Redis_checkUserExist_def
      Redis_registerUser_def Redis_verifyUser_def Kvrocks_registerUser_def Kvrocks_setUser_def
      Kvrocks_userKey_def Kvrocks_userListKey_def Redis_userPwdKey_def eval_defs)

text \<open>What holds of \<^verbatim>\<open>changePassword\<close> for a user without an account, on every store:
  the Kvrocks adapter leaves the store as it is, the Redis adapter creates the
  credential, and the new password is accepted exactly when the client hands it back as
  a truthy value that prints as the password itself. The empty password fails the first
  condition; so do \<^verbatim>\<open>0\<close>, \<^verbatim>\<open>null\<close> and \<^verbatim>\<open>false\<close>, which the client deserialises.\<close>

lemma Kvrocks_changePassword_no_account:
  "fst (Kvrocks_checkUserExist u s) = Inr False \<Longrightarrow> Kvrocks_changePassword u p s = (Inr (), s)"
  by (auto simp: Kvrocks_checkUserExist_def Kvrocks_changePassword_def Kvrocks_getUser_def
      await_def resolve_def client_get_def split: option.splits entry.splits if_splits)

lemma Redis_changePassword_registers:
  "fst (Redis_checkUserExist u (snd (Redis_changePassword u p s))) = Inr True"
  "fst (Redis_verifyUser u p (snd (Redis_changePassword u p s))) =
     Inr (JBool (truthy (deserialize p) \<and> ensureString (deserialize p) = p))"
  by (simp_all add: Redis_checkUserExist_def Redis_changePassword_def Redis_verifyUser_def
      fst_await get_result client_exists_def)

lemma deserialized_passwords:
  "deserialize ''0'' = JNum 0" "deserialize ''null'' = JNull" "deserialize ''false'' = JBool False"
  by code_simp+

text \<open>
  Claim C10 says that, for a user without an account, \<^verbatim>\<open>changePassword\<close> of the Redis
  adapter registers the user, so that \<^verbatim>\<open>verifyUser\<close> with the new password returns
  true. With the empty string as new password the account exists afterwards, and
  \<^verbatim>\<open>verifyUser\<close> with that password returns false.
\<close>

theorem Redis_changePassword_empty_password:
  "fst (Redis_checkUserExist ''ghost'' []) = Inr False \<and>
   fst (Redis_checkUserExist ''ghost'' (snd (Redis_changePassword ''ghost'' '''' []))) =
     Inr True \<and>
   fst (Redis_verifyUser ''ghost'' '''' (snd (Redis_changePassword ''ghost'' '''' []))) =
     Inr (JBool False)"
  by (simp add: Redis_checkUserExist_def Redis_changePassword_def Redis_verifyUser_def
      Redis_userPwdKey_def eval_defs)

section \<open>Deleting a user\<close>

text \<open>
  Claim C1 says that after \<^verbatim>\<open>deleteUser\<close> no entity of the user remains, on both
  adapters. \<^verbatim>\<open>deleteUser\<close> of the Redis adapter deletes neither the skip configurations
  nor their index set: after \<^verbatim>\<open>setSkipConfig("bob", "ep1", ...)\<close> and
  \<^verbatim>\<open>deleteUser("bob")\<close>, which resolves, \<^verbatim>\<open>getAllSkipConfigs("bob")\<close> still returns the
  configuration. The Kvrocks adapter returns the empty object for the same calls.
\<close>

theorem Redis_deleteUser_keeps_skipConfigs:
  "fst (Redis_deleteUser ''bob''
     (snd (Redis_setSkipConfig ''bob'' ''ep1''
        [(''introEnd'', JNum 90), (''outroStart'', JNum 1300)] []))) = Inr () \<and>
   fst (Redis_getAllSkipConfigs ''bob''
     (snd (Redis_deleteUser ''bob''
        (snd (Redis_setSkipConfig ''bob'' ''ep1''
           [(''introEnd'', JNum 90), (''outroStart'', JNum 1300)] []))))) =
     Inr [(''ep1'', JObj [(''introEnd'', JNum 90), (''outroStart'', JNum 1300)])] \<and>
   fst (Kvrocks_getAllSkipConfigs ''bob''
     (snd (Kvrocks_deleteUser ''bob''
        (snd (Kvrocks_setSkipConfig ''bob'' ''ep1''
           [(''introEnd'', JNum 90), (''outroStart'', JNum 1300)] []))))) = Inr []"
  by (simp add: Redis_deleteUser_def Redis_setSkipConfig_def Redis_getAllSkipConfigs_def
      Redis_skipConfigKey_def Redis_skipConfigsKey_def Redis_userPwdKey_def Redis_shKey_def
      Redis_userSettingsKey_def Kvrocks_deleteUser_def Kvrocks_setSkipConfig_def
      Kvrocks_getAllSkipConfigs_def Kvrocks_skipConfigKey_def Kvrocks_userKey_def
      Kvrocks_userListKey_def permanent_await eval_defs)

section \<open>The retry wrapper\<close>

lemma attempts_append [simp]: "attempts (xs @ ys) = attempts xs + attempts ys"
  by (simp add: attempts_def)

lemma attempts_simps [simp]:
  "attempts [] = 0" "attempts (Attempt # es) = Suc (attempts es)" "attempts (Wait ms # es) = attempts es"
  by (simp_all add: attempts_def)

lemma withRetry_loop_attempts:
  "attempts (snd (withRetry_loop operation maxRetries i s trace)) \<le> attempts trace + nat (maxRetries - i)"
proof (induction operation maxRetries i s trace rule: withRetry_loop.induct)
  case (1 operation maxRetries i s trace)
  show ?case
  proof (cases "i < maxRetries")
    case False
    then show ?thesis by (simp add: withRetry_loop.simps[of operation maxRetries i])
  next
    case True
    obtain r s' where op: "operation s = (r, s')" by (cases "operation s")
    show ?thesis
    proof (cases r)
      case (Inr v)
      with True op show ?thesis by (simp add: withRetry_loop.simps[of operation maxRetries i])
    next
      case (Inl err)
      show ?thesis
      proof (cases "isConnectionError err \<and> \<not> (i = maxRetries - 1)")
        case False
        with True op Inl show ?thesis by (auto simp add: withRetry_loop.simps[of operation maxRetries i])
      next
        case c: True
        have "attempts (snd (withRetry_loop operation maxRetries (i + 1) s'
                    (trace @ [Attempt, Wait (1000 * (i + 1))])))
              \<le> attempts (trace @ [Attempt, Wait (1000 * (i + 1))]) + nat (maxRetries - (i + 1))"
          using "1.IH"[OF True op[symmetric] Inl c] .
        with True op Inl c show ?thesis
          by (simp add: withRetry_loop.simps[of operation maxRetries i s])
      qed
    qed
  qed
qed

lemma withRetry_attempts_le:
  "attempts (snd (withRetry operation maxRetries s)) \<le> nat maxRetries"
  using withRetry_loop_attempts[of operation maxRetries 0 s "[]"] by (simp add: withRetry_def)

lemma withRetry_3_unfold:
  "withRetry operation 3 s =
     (case operation s of
        (Inr v, s1) \<Rightarrow> ((Inr v, s1), [Attempt])
      | (Inl e1, s1) \<Rightarrow>
          if \<not> isConnectionError e1 then ((Inl e1, s1), [Attempt])
          else (case operation s1 of
                  (Inr v, s2) \<Rightarrow> ((Inr v, s2), [Attempt, Wait 1000, Attempt])
                | (Inl e2, s2) \<Rightarrow>
                    if \<not> isConnectionError e2 then ((Inl e2, s2), [Attempt, Wait 1000, Attempt])
                    else (operation s2, [Attempt, Wait 1000, Attempt, Wait 2000, Attempt])))"
  by (simp add: withRetry_def withRetry_loop.simps[of operation 3 0]
      withRetry_loop.simps[of operation 3 1] withRetry_loop.simps[of operation 3 2]
      split: prod.splits sum.splits)

lemma upt_simps3: "[1..<Suc 0] = []" "[1..<Suc (Suc 0)] = [1]" "[1..<Suc (Suc (Suc 0))] = [1, 2]"
  by (simp_all add: upt_rec)

text \<open>
  Claim C6. With the default cap, \<^verbatim>\<open>withRetry\<close> calls the operation at most 3 times;
  the wait before the n-th retry is 1000 ms times n; it retries only after a failure
  classified as a connection error with attempts remaining; a failure that is not a
  connection error is thrown at once, and so is any failure of the third attempt; a
  success of any attempt is returned. Two connection errors followed by a success give
  the successful result, after waits of 1000 ms and 2000 ms. (The wrappers of the two
  adapters differ in their log messages only.)
\<close>

theorem withRetry_contract:
  "attempts (snd (withRetry operation 3 s)) \<le> 3 \<and>
   waits (snd (withRetry operation 3 s)) =
     map (\<lambda>n. 1000 * int n) [1..<attempts (snd (withRetry operation 3 s))] \<and>
   (operation s = (Inr v, sa) \<longrightarrow> withRetry operation 3 s = ((Inr v, sa), [Attempt])) \<and>
   (operation s = (Inl ea, sa) \<and> \<not> isConnectionError ea \<longrightarrow>
      withRetry operation 3 s = ((Inl ea, sa), [Attempt])) \<and>
   (operation s = (Inl ea, sa) \<and> isConnectionError ea \<and> operation sa = (Inr v, sb) \<longrightarrow>
      withRetry operation 3 s = ((Inr v, sb), [Attempt, Wait 1000, Attempt])) \<and>
   (operation s = (Inl ea, sa) \<and> isConnectionError ea \<and>
    operation sa = (Inl eb, sb) \<and> \<not> isConnectionError eb \<longrightarrow>
      withRetry operation 3 s = ((Inl eb, sb), [Attempt, Wait 1000, Attempt])) \<and>
   (operation s = (Inl ea, sa) \<and> isConnectionError ea \<and>
    operation sa = (Inl eb, sb) \<and> isConnectionError eb \<and> operation sb = (rc, sc) \<longrightarrow>
      withRetry operation 3 s =
        ((rc, sc), [Attempt, Wait 1000, Attempt, Wait 2000, Attempt]))"
proof -
  have a: "attempts (snd (withRetry operation 3 s)) \<le> 3"
    using withRetry_attempts_le[of operation 3 s] by simp
  have w: "waits (snd (withRetry operation 3 s)) =
     map (\<lambda>n. 1000 * int n) [1..<attempts (snd (withRetry operation 3 s))]"
    by (simp add: withRetry_3_unfold upt_simps3 split: prod.splits sum.splits)
  show ?thesis
    using a w by (simp add: withRetry_3_unfold)
qed

theorem withRetry_contract_witness:
  "withRetry flaky 3 0 = ((Inr ''ok'', 3), [Attempt, Wait 1000, Attempt, Wait 2000, Attempt]) \<and>
   sum_list (waits (snd (withRetry flaky 3 0))) = 3000 \<and>
   attempts (snd (withRetry flaky 3 0)) = 3"
  using withRetry_contract[where operation = flaky and s = 0 and sa = 1 and sb = 2 and sc = 3
      and ea = "\<lparr>message = None, code = Some ''ECONNRESET''\<rparr>"
      and eb = "\<lparr>message = None, code = Some ''ECONNRESET''\<rparr>"
      and rc = "Inr ''ok''"]
  by (simp add: flaky_def isConnectionError_def message_includes_def)

section \<open>Search history\<close>

lemma Kvrocks_history:
  "Kvrocks_addSearchHistory u q = history_push (Kvrocks_searchHistoryKey u) q"
  "Kvrocks_deleteSearchHistory u query = history_remove (Kvrocks_searchHistoryKey u) query"
  "Kvrocks_getSearchHistory u = history_read (Kvrocks_searchHistoryKey u)"
  by (simp_all add: Kvrocks_addSearchHistory_def Kvrocks_deleteSearchHistory_def
      Kvrocks_getSearchHistory_def history_push_def history_remove_def history_read_def
      SEARCH_HISTORY_LIMIT_def ensureStringArray_def permanent_await Let_def split: option.splits)

lemma Redis_history:
  "Redis_addSearchHistory u q = history_push (Redis_shKey u) q"
  "Redis_deleteSearchHistory u query = history_remove (Redis_shKey u) query"
  "Redis_getSearchHistory u = history_read (Redis_shKey u)"
  by (simp_all add: Redis_addSearchHistory_def Redis_deleteSearchHistory_def
      Redis_getSearchHistory_def history_push_def history_remove_def history_read_def
      SEARCH_HISTORY_LIMIT_def ensureStringArray_def Let_def split: option.splits)

lemma list_range_all [simp]: "list_range 0 (- 1) xs = xs"
  by (cases xs) (simp_all add: list_range_def Let_def)

lemma list_range_20 [simp]: "list_range 0 19 xs = take 20 xs"
proof (cases xs)
  case Nil
  then show ?thesis by (simp add: list_range_def)
next
  case (Cons x xs')
  have "nat (min 19 (int (length xs')) + 1) = min 20 (Suc (length xs'))" by auto
  with Cons show ?thesis
    by (simp add: list_range_def Let_def min_def)
qed

lemma list_at_put_list [simp]:
  "list_at (put_list k xs s) k' = (if k' = k then Inr xs else list_at s k')"
  by (simp add: list_at_def)

lemma list_at_del [simp]:
  "list_at (snd (client_del ks s)) k = (if k \<in> set ks then Inr [] else list_at s k)"
  by (simp add: list_at_def)

lemma list_at_push:
  "list_at (snd (history_push K q s)) k =
     (if k = K then (case list_at s K of Inl e \<Rightarrow> Inl e | Inr h \<Rightarrow> Inr (q # take 19 (removeAll q h)))
      else list_at s k)"
  by (simp add: history_push_def await_def client_lrem_def client_lpush_def client_ltrim_def
      list_rem_def split: sum.splits)

lemma list_at_remove:
  "list_at (snd (history_remove K query s)) k =
     (if k = K then
        (case list_at s K of Inl e \<Rightarrow> (if query = None \<or> query = Some [] then Inr [] else Inl e)
         | Inr h \<Rightarrow> Inr (case query of None \<Rightarrow> [] | Some q \<Rightarrow> if q \<noteq> [] then removeAll q h else []))
      else list_at s k)"
  by (simp add: history_remove_def client_lrem_def list_rem_def split: sum.splits option.splits)

lemma read_result:
  "fst (history_read K s) =
     (case list_at s K of
        Inl e \<Rightarrow> Inl e
      | Inr h \<Rightarrow> Inr (map (\<lambda>q. ensureString (deserialize q)) h))"
  by (simp add: history_read_def await_def client_lrange_def resolve_def comp_def
      split: sum.splits)

lemma list_at_call:
  assumes inj: "inj keyf" and h: "list_at s (keyf u) = Inr h"
  shows "list_at (history_call keyf s c) (keyf u) = Inr (entries_after u h c)"
  using h by (cases c) (auto simp: list_at_push list_at_remove inj_eq[OF inj] split: option.splits)

lemma list_at_calls:
  assumes inj: "inj keyf" and h: "list_at s (keyf u) = Inr h"
  shows "list_at (foldl (history_call keyf) s cs) (keyf u) = Inr (foldl (entries_after u) h cs)"
  using h
proof (induction cs arbitrary: s h)
  case Nil
  then show ?case by simp
next
  case (Cons c cs)
  show ?case using Cons.IH[OF list_at_call[OF inj Cons.prems]] by simp
qed


lemma last_added_le: "last_added cs u q \<le> length cs"
  by (induction cs) auto

lemma last_added_snoc:
  "last_added (cs @ [c]) u q =
     (if c = AddSearchHistory u q then Suc (length cs) else last_added cs u q)"
  by (induction cs) auto

lemma most_recent_first_distinct: "most_recent_first cs u h \<Longrightarrow> distinct h"
  unfolding most_recent_first_def by (induction h) auto

lemma entries_after_invariant:
  assumes len: "length h \<le> 20" and mrf: "most_recent_first cs u h"
  shows "length (entries_after u h c) \<le> 20 \<and> most_recent_first (cs @ [c]) u (entries_after u h c)"
proof (cases "\<exists>q. c = AddSearchHistory u q")
  case True
  then obtain q where c: "c = AddSearchHistory u q" by blast
  let ?rest = "take 19 (removeAll q h)"
  have others: "last_added (cs @ [c]) u x = last_added cs u x" if "x \<noteq> q" for x
    using that c by (simp add: last_added_snoc)
  have "sorted_wrt (\<lambda>x y. last_added cs u y < last_added cs u x) (removeAll q h)"
    using mrf by (simp add: most_recent_first_def removeAll_filter_not_eq sorted_wrt_filter)
  then have "sorted_wrt (\<lambda>x y. last_added (cs @ [c]) u y < last_added (cs @ [c]) u x) (removeAll q h)"
    by (rule sorted_wrt_mono_rel[rotated]) (simp add: others)
  then have rest: "sorted_wrt (\<lambda>x y. last_added (cs @ [c]) u y < last_added (cs @ [c]) u x) ?rest"
    by (rule sorted_wrt_take)
  have front: "last_added (cs @ [c]) u y < last_added (cs @ [c]) u q" if "y \<in> set ?rest" for y
  proof -
    from that have "y \<noteq> q" by (auto dest: in_set_takeD)
    then have "last_added (cs @ [c]) u y = last_added cs u y" by (rule others)
    also have "\<dots> \<le> length cs" by (rule last_added_le)
    also have "\<dots> < last_added (cs @ [c]) u q" by (simp add: last_added_snoc c)
    finally show ?thesis .
  qed
  show ?thesis
    using rest front by (simp add: c most_recent_first_def)
next
  case False
  then have same: "last_added (cs @ [c]) u x = last_added cs u x" for x
    by (simp add: last_added_snoc)
  have keep: "most_recent_first (cs @ [c]) u h' = most_recent_first cs u h'" for h'
    by (simp add: most_recent_first_def same)
  have empty: "most_recent_first (cs @ [c]) u []"
    by (simp add: most_recent_first_def)
  have rem: "most_recent_first cs u (removeAll q h)" for q
    using mrf by (simp add: most_recent_first_def removeAll_filter_not_eq sorted_wrt_filter)
  have shorter: "length (removeAll q h) \<le> 20" for q
    by (rule le_trans[OF length_removeAll_less_eq len])
  show ?thesis
  proof (cases c)
    case (AddSearchHistory u' q)
    with False have "u' \<noteq> u" by simp
    with AddSearchHistory have "entries_after u h c = h" by simp
    with len mrf show ?thesis by (simp add: keep)
  next
    case (DeleteSearchHistory u' query)
    then have "entries_after u h c = h \<or> entries_after u h c = [] \<or>
        (\<exists>q. entries_after u h c = removeAll q h)"
      by (auto split: option.splits)
    then show ?thesis
      using len mrf empty rem shorter by (auto simp: keep)
  qed
qed

lemma entries_invariant:
  "length (foldl (entries_after u) [] cs) \<le> 20 \<and>
   most_recent_first cs u (foldl (entries_after u) [] cs)"
proof (induction cs rule: rev_induct)
  case Nil
  then show ?case by (simp add: most_recent_first_def)
next
  case (snoc c cs)
  then show ?case using entries_after_invariant[of "foldl (entries_after u) [] cs" cs u c] by simp
qed

lemma entries_distinct_adds:
  "distinct qs \<Longrightarrow> foldl (entries_after u) [] (map (AddSearchHistory u) qs) = take 20 (rev qs)"
proof (induction qs rule: rev_induct)
  case Nil
  then show ?case by simp
next
  case (snoc q qs)
  then have ih: "foldl (entries_after u) [] (map (AddSearchHistory u) qs) = take 20 (rev qs)"
    by simp
  from snoc.prems have "q \<notin> set (take 20 (rev qs))" by (auto dest: in_set_takeD)
  then have "removeAll q (take 20 (rev qs)) = take 20 (rev qs)" by simp
  with ih show ?case by simp
qed


lemma Kvrocks_calls: "foldl Kvrocks_call s cs = foldl (history_call Kvrocks_searchHistoryKey) s cs"
proof -
  have "Kvrocks_call = history_call Kvrocks_searchHistoryKey"
  proof (intro ext)
    fix s c show "Kvrocks_call s c = history_call Kvrocks_searchHistoryKey s c"
      by (cases c) (simp_all add: Kvrocks_history)
  qed
  then show ?thesis by simp
qed

lemma Redis_calls: "foldl Redis_call s cs = foldl (history_call Redis_shKey) s cs"
proof -
  have "Redis_call = history_call Redis_shKey"
  proof (intro ext)
    fix s c show "Redis_call s c = history_call Redis_shKey s c"
      by (cases c) (simp_all add: Redis_history)
  qed
  then show ?thesis by simp
qed

lemma inj_Kvrocks_searchHistoryKey: "inj Kvrocks_searchHistoryKey"
  by (rule injI) (simp add: Kvrocks_searchHistoryKey_def)

lemma inj_Redis_shKey: "inj Redis_shKey"
  by (rule injI) (simp add: Redis_shKey_def)

lemma list_at_absent: "map_of s K = None \<Longrightarrow> list_at s K = Inr []"
  by (simp add: list_at_def)

lemma history_after_calls:
  assumes "inj keyf" and "map_of s (keyf u) = None"
  shows "\<exists>h. list_at (foldl (history_call keyf) s cs) (keyf u) = Inr h \<and>
             fst (history_read (keyf u) (foldl (history_call keyf) s cs)) =
               Inr (map (\<lambda>q. ensureString (deserialize q)) h) \<and>
             length h \<le> 20 \<and> distinct h \<and> most_recent_first cs u h"
  using list_at_calls[OF assms(1) list_at_absent[OF assms(2)], of cs] entries_invariant[of u cs]
  by (auto simp: read_result dest: most_recent_first_distinct)

text \<open>
  What holds of the search history on both adapters, for every sequence of calls from a
  store without a history for the user: the list that the service holds has at most 20
  entries, no duplicates, and is ordered most recent first; \<^verbatim>\<open>getSearchHistory\<close>
  resolves to these entries, each deserialised by the client and printed by
  \<^verbatim>\<open>String\<close>, so to at most 20 strings.
\<close>

lemma stored_search_history:
  "map_of s (Kvrocks_searchHistoryKey u) = None \<Longrightarrow>
   \<exists>h. list_at (foldl Kvrocks_call s cs) (Kvrocks_searchHistoryKey u) = Inr h \<and>
       fst (Kvrocks_getSearchHistory u (foldl Kvrocks_call s cs)) =
         Inr (map (\<lambda>q. ensureString (deserialize q)) h) \<and>
       length h \<le> 20 \<and> distinct h \<and> most_recent_first cs u h"
  "map_of s (Redis_shKey u) = None \<Longrightarrow>
   \<exists>h. list_at (foldl Redis_call s cs) (Redis_shKey u) = Inr h \<and>
       fst (Redis_getSearchHistory u (foldl Redis_call s cs)) =
         Inr (map (\<lambda>q. ensureString (deserialize q)) h) \<and>
       length h \<le> 20 \<and> distinct h \<and> most_recent_first cs u h"
  using history_after_calls[OF inj_Kvrocks_searchHistoryKey, of s u cs]
    history_after_calls[OF inj_Redis_shKey, of s u cs]
  by (simp_all only: Kvrocks_history Redis_history Kvrocks_calls Redis_calls)

lemma stored_after_distinct_adds:
  assumes "inj keyf" and "map_of s (keyf u) = None" and "distinct qs"
  shows "list_at (foldl (history_call keyf) s (map (AddSearchHistory u) qs)) (keyf u) =
           Inr (take 20 (rev qs))"
  using list_at_calls[OF assms(1) list_at_absent[OF assms(2)], of "map (AddSearchHistory u) qs"]
  by (simp add: entries_distinct_adds[OF assms(3)])

lemma deserialized_queries:
  "deserialize ''1,2'' = JStr ''1,2''"
  "deserialize ''[1,2]'' = JArr [JNum 1, JNum 2]"
  "deserialize ''tv'' = JStr ''tv''"
  "deserialize [CHR 0x22, CHR ''t'', CHR ''v'', CHR 0x22] = JStr ''tv''"
  by code_simp+

text \<open>
  Claim C7 says that the search history never contains a duplicate string and that a
  query that is added is at the front. The adapters remove duplicates among the strings
  as they are stored, but \<^verbatim>\<open>getSearchHistory\<close> returns what the client makes of them:
  after adding \<^verbatim>\<open>1,2\<close> and then \<^verbatim>\<open>[1,2]\<close>, the second is deserialised to an array, which
  \<^verbatim>\<open>ensureStringArray\<close> prints as \<^verbatim>\<open>1,2\<close>, so the result holds \<^verbatim>\<open>1,2\<close> twice and the
  query just added is not in it. The same happens with \<^verbatim>\<open>tv\<close> and \<^verbatim>\<open>tv\<close> in double
  quotes. On both adapters.
\<close>

theorem getSearchHistory_duplicates:
  "fst (Kvrocks_getSearchHistory ''alice''
     (foldl Kvrocks_call []
        [AddSearchHistory ''alice'' ''1,2'', AddSearchHistory ''alice'' ''[1,2]''])) =
     Inr [''1,2'', ''1,2''] \<and>
   fst (Redis_getSearchHistory ''alice''
     (foldl Redis_call []
        [AddSearchHistory ''alice'' ''1,2'', AddSearchHistory ''alice'' ''[1,2]''])) =
     Inr [''1,2'', ''1,2''] \<and>
   fst (Redis_getSearchHistory ''alice''
     (foldl Redis_call []
        [AddSearchHistory ''alice'' ''tv'',
         AddSearchHistory ''alice'' [CHR 0x22, CHR ''t'', CHR ''v'', CHR 0x22]])) =
     Inr [''tv'', ''tv'']"
  by (simp add: Kvrocks_getSearchHistory_def Kvrocks_addSearchHistory_def
      Kvrocks_searchHistoryKey_def Redis_getSearchHistory_def Redis_addSearchHistory_def
      Redis_shKey_def SEARCH_HISTORY_LIMIT_def ensureStringArray_def permanent_await
      list_rem_def Let_def deserialized_queries digit_char_def eval_defs)

section \<open>Skip configurations and their index\<close>

text \<open>
  Claim C3 says that \<^verbatim>\<open>setSkipConfig\<close> adds the content key to the index set of the
  user on both adapters. The Kvrocks adapter has no index set: \<^verbatim>\<open>setSkipConfig\<close> on
  the empty store leaves the configuration under its key and nothing else.
\<close>

theorem Kvrocks_setSkipConfig_no_index:
  "Kvrocks_setSkipConfig ''bob'' ''ep1'' [(''introEnd'', JNum 90), (''outroStart'', JNum 1300)] [] =
     (Inr (), [(''u:bob:skip_config:ep1'',
                Str (JObj [(''introEnd'', JNum 90), (''outroStart'', JNum 1300)]))])"
  by (simp add: Kvrocks_setSkipConfig_def Kvrocks_skipConfigKey_def eval_defs)

lemma set_at_put_set [simp]:
  "set_at (put_set k xs s) k' = (if k' = k then Inr xs else set_at s k')"
  by (simp add: set_at_def)

lemma set_at_set_other: "k' \<noteq> k \<Longrightarrow> set_at (snd (client_set k v s)) k' = set_at s k'"
  by (simp add: set_at_def)

lemma smembers_result: "fst (client_smembers k s) = set_at s k"
  by (simp add: client_smembers_def split: sum.splits)

lemma set_at_sadd:
  "set_at (snd (client_sadd k m s)) k' =
     (if k' = k then (case set_at s k of Inl e \<Rightarrow> Inl e | Inr ms \<Rightarrow> Inr (List.insert m ms))
      else set_at s k')"
  by (simp add: client_sadd_def split: sum.splits)

lemma fst_sadd: "fst (client_sadd k m s) = (case set_at s k of Inl e \<Rightarrow> Inl e | Inr ms \<Rightarrow> Inr ())"
  by (simp add: client_sadd_def split: sum.splits)

lemma Redis_setSkipConfig_plain:
  "Redis_setSkipConfig u k c =
     await (client_set (Redis_skipConfigKey u k) (JObj c))
       (\<lambda>_. client_sadd (Redis_skipConfigsKey u) k)"
  by (simp add: Redis_setSkipConfig_def)

lemma inj_Redis_skipConfigsKey: "inj Redis_skipConfigsKey"
  by (rule injI) (simp add: Redis_skipConfigsKey_def)

lemma set_at_Redis_setSkipConfig:
  "set_at (snd (Redis_setSkipConfig u' k c s)) (Redis_skipConfigsKey u) =
     (if u' = u then
        (case set_at s (Redis_skipConfigsKey u) of Inl e \<Rightarrow> Inl e | Inr ms \<Rightarrow> Inr (List.insert k ms))
      else set_at s (Redis_skipConfigsKey u))"
  using Redis_skip_keys_differ[of u' k u] Redis_skip_keys_differ[of u' k u']
  by (auto simp: Redis_setSkipConfig_plain snd_await set_at_sadd set_at_set_other
      inj_eq[OF inj_Redis_skipConfigsKey] split: sum.splits)

lemma fst_Redis_setSkipConfig:
  "fst (Redis_setSkipConfig u k c s) =
     (case set_at s (Redis_skipConfigsKey u) of Inl e \<Rightarrow> Inl e | Inr ms \<Rightarrow> Inr ())"
  using Redis_skip_keys_differ[of u k u]
  by (auto simp: Redis_setSkipConfig_plain fst_await fst_sadd set_at_set_other split: sum.splits)

lemma index_after_calls:
  "set_at s (Redis_skipConfigsKey u) = Inr ms \<Longrightarrow>
   \<exists>ms'. set_at (foldl Redis_setSkipConfig_call s calls) (Redis_skipConfigsKey u) = Inr ms' \<and>
         set ms' = set ms \<union> set (keys_written calls u)"
proof (induction calls arbitrary: s ms)
  case Nil
  then show ?case by (simp add: keys_written_def)
next
  case (Cons call calls)
  obtain u' k c where call: "call = (u', k, c)" by (cases call)
  let ?ms1 = "if u' = u then List.insert k ms else ms"
  have "set_at (Redis_setSkipConfig_call s call) (Redis_skipConfigsKey u) = Inr ?ms1"
    using Cons.prems by (simp add: call set_at_Redis_setSkipConfig)
  from Cons.IH[OF this] show ?case
    by (auto simp: call keys_written_def)
qed

text \<open>
  Claim C3, amended. On the Redis adapter, where the index key of the user holds a set
  or nothing, \<^verbatim>\<open>setSkipConfig\<close> resolves, writes the configuration and adds the content
  key to the index set; after any sequence of \<^verbatim>\<open>setSkipConfig\<close> calls the index set of
  the user holds what it held before and exactly the content keys written for that
  user. On the Kvrocks adapter \<^verbatim>\<open>setSkipConfig\<close> writes the configuration under its key
  and changes no other key.
\<close>

theorem Redis_setSkipConfig_index:
  "(fst (client_smembers (Redis_skipConfigsKey u) s) = Inr ms \<longrightarrow>
      fst (Redis_setSkipConfig u k c s) = Inr () \<and>
      fst (Redis_getSkipConfig u k (snd (Redis_setSkipConfig u k c s))) = Inr (JObj c) \<and>
      fst (client_smembers (Redis_skipConfigsKey u) (snd (Redis_setSkipConfig u k c s))) =
        Inr (List.insert k ms)) \<and>
   (fst (client_smembers (Redis_skipConfigsKey u) s) = Inr ms \<longrightarrow>
      (\<exists>ms'. fst (client_smembers (Redis_skipConfigsKey u)
                (foldl Redis_setSkipConfig_call s calls)) = Inr ms' \<and>
             set ms' = set ms \<union> set (keys_written calls u))) \<and>
   fst (Kvrocks_setSkipConfig u k c s) = Inr () \<and>
   fst (Kvrocks_getSkipConfig u k (snd (Kvrocks_setSkipConfig u k c s))) = Inr (JObj c) \<and>
   map_of (snd (Kvrocks_setSkipConfig u k c s)) =
     (map_of s)(Kvrocks_skipConfigKey u k \<mapsto> Str (JObj c))"
proof -
  have kv: "fst (Kvrocks_setSkipConfig u k c s) = Inr ()"
    "map_of (snd (Kvrocks_setSkipConfig u k c s)) =
       (map_of s)(Kvrocks_skipConfigKey u k \<mapsto> Str (JObj c))"
    by (simp_all add: Kvrocks_setSkipConfig_def)
  show ?thesis
    using index_after_calls[of s u ms calls] kv
    by (simp add: smembers_result fst_Redis_setSkipConfig set_at_Redis_setSkipConfig
        Redis_skipConfig_roundtrip Kvrocks_skipConfig_roundtrip)
qed

theorem Redis_setSkipConfig_index_witness:
  "fst (client_smembers (Redis_skipConfigsKey ''bob'') []) = Inr [] \<and>
   fst (Redis_setSkipConfig ''bob'' ''ep1'' [(''introEnd'', JNum 90)] []) = Inr () \<and>
   fst (client_smembers (Redis_skipConfigsKey ''bob'')
         (snd (Redis_setSkipConfig ''bob'' ''ep1'' [(''introEnd'', JNum 90)] []))) = Inr [''ep1''] \<and>
   (\<exists>ms'. fst (client_smembers (Redis_skipConfigsKey ''bob'')
            (foldl Redis_setSkipConfig_call []
               [(''bob'', ''ep1'', [(''introEnd'', JNum 90)]), (''eve'', ''ep9'', []),
                (''bob'', ''ep2'', [])])) = Inr ms' \<and>
          set ms' = {''ep1'', ''ep2''})"
proof -
  have e: "fst (client_smembers (Redis_skipConfigsKey ''bob'') []) = Inr []"
    by (simp add: eval_defs)
  show ?thesis
    using e Redis_setSkipConfig_index[of "''bob''" "[]" "[]" "''ep1''" "[(''introEnd'', JNum 90)]"
        "[(''bob'', ''ep1'', [(''introEnd'', JNum 90)]), (''eve'', ''ep9'', []), (''bob'', ''ep2'', [])]"]
    by (simp add: keys_written_def insert_commute)
qed

end
